theory Spec2Isabelle
  imports Complex_Main "HOL-Library.AList"
begin

section \<open>JavaScript values as the handlers see them\<close>

text \<open>
  The three revisions of the API (\<^verbatim>\<open>src/functions/index.js\<close>, first and second document,
  and \<^verbatim>\<open>src/unnamed/part_000\<close>) are untyped JavaScript over JSON request bodies and
  Firestore documents. Their guards (\<^verbatim>\<open>typeof x === 'number'\<close>, \<^verbatim>\<open>Array.isArray\<close>,
  \<^verbatim>\<open>a || b\<close>, \<^verbatim>\<open>Number(x)\<close>) depend on the dynamic type of a value, so values keep it.

  Numbers are IEEE doubles in the source. Here a finite number is an exact rational:
  rounding is not modelled. \<open>NaN\<close> and the two infinities are kept, because the guards
  \<^verbatim>\<open>Number.isFinite\<close>, \<^verbatim>\<open>Number.isNaN\<close> and \<^verbatim>\<open>x || 4\<close> distinguish them.
\<close>

datatype jsnum = NaN | PInf | NInf | Fin rat

datatype jsval =
    JUndef
  | JNull
  | JBool bool
  | JNum jsnum
  | JStr string
  | JTime int
  | JArr "jsval list"
  | JObj "(string \<times> jsval) list"
  | JFun string

text \<open>
  \<open>JUndef\<close> is \<^verbatim>\<open>undefined\<close> (also: the field is absent), \<open>JTime\<close> a Firestore
  \<^verbatim>\<open>Timestamp\<close> (milliseconds), \<open>JFun\<close> a function object, which only the lookup
  \<^verbatim>\<open>BAND_RANK[b]\<close> can produce (an inherited property of the object literal).
\<close>

type_synonym doc = "(string \<times> jsval) list"

subsection \<open>Numbers\<close>

fun num_lt :: "jsnum \<Rightarrow> jsnum \<Rightarrow> bool" where
  "num_lt NaN _ = False"
| "num_lt _ NaN = False"
| "num_lt (Fin a) (Fin b) = (a < b)"
| "num_lt NInf NInf = False"
| "num_lt NInf _ = True"
| "num_lt _ NInf = False"
| "num_lt PInf _ = False"
| "num_lt _ PInf = True"

text \<open>\<^verbatim>\<open>a <= b\<close>, \<^verbatim>\<open>a >= b\<close>, \<^verbatim>\<open>a > b\<close> on numbers: false as soon as one side is NaN.\<close>

definition is_nan :: "jsnum \<Rightarrow> bool" where
  "is_nan n = (case n of NaN \<Rightarrow> True | _ \<Rightarrow> False)"

definition num_le :: "jsnum \<Rightarrow> jsnum \<Rightarrow> bool" where
  "num_le a b = (\<not> is_nan a \<and> \<not> is_nan b \<and> \<not> num_lt b a)"

definition num_ge :: "jsnum \<Rightarrow> jsnum \<Rightarrow> bool" where
  "num_ge a b = num_le b a"

definition num_gt :: "jsnum \<Rightarrow> jsnum \<Rightarrow> bool" where
  "num_gt a b = num_lt b a"

fun num_add :: "jsnum \<Rightarrow> jsnum \<Rightarrow> jsnum" where
  "num_add NaN _ = NaN"
| "num_add _ NaN = NaN"
| "num_add (Fin a) (Fin b) = Fin (a + b)"
| "num_add PInf NInf = NaN"
| "num_add NInf PInf = NaN"
| "num_add PInf _ = PInf"
| "num_add _ PInf = PInf"
| "num_add NInf _ = NInf"
| "num_add _ NInf = NInf"

fun num_neg :: "jsnum \<Rightarrow> jsnum" where
  "num_neg NaN = NaN"
| "num_neg PInf = NInf"
| "num_neg NInf = PInf"
| "num_neg (Fin a) = Fin (- a)"

definition num_sub :: "jsnum \<Rightarrow> jsnum \<Rightarrow> jsnum" where
  "num_sub a b = num_add a (num_neg b)"

text \<open>\<^verbatim>\<open>Math.max(a, b)\<close> and \<^verbatim>\<open>Math.min(a, b)\<close>: NaN if an argument is NaN.\<close>

definition math_max :: "jsnum \<Rightarrow> jsnum \<Rightarrow> jsnum" where
  "math_max a b = (if is_nan a \<or> is_nan b then NaN else if num_lt a b then b else a)"

definition math_min :: "jsnum \<Rightarrow> jsnum \<Rightarrow> jsnum" where
  "math_min a b = (if is_nan a \<or> is_nan b then NaN else if num_lt b a then b else a)"

definition isFinite :: "jsnum \<Rightarrow> bool" where
  "isFinite n = (case n of Fin _ \<Rightarrow> True | _ \<Rightarrow> False)"

definition js_of_nat :: "nat \<Rightarrow> jsnum" where
  "js_of_nat n = Fin (of_nat n)"

subsection \<open>Coercions\<close>

text \<open>
  The conversions of the language that the handlers call on values of any type are
  parameters of the model: \<open>StringToNumber\<close> is the runtime's parse of a string as a
  number, \<open>ObjectToPrimitive\<close> the primitive an object, array, timestamp or function
  converts to (a primitive, in the language), and \<open>KeyOfNonString\<close> the property key a
  non-string value converts to. Every theorem below holds for any choice of them.
\<close>

record js_env =
  StringToNumber :: "string \<Rightarrow> jsnum"
  ObjectToPrimitive :: "jsval \<Rightarrow> jsval"
  KeyOfNonString :: "jsval \<Rightarrow> string"

text \<open>Truthiness: \<^verbatim>\<open>!x\<close>, \<^verbatim>\<open>x || y\<close>, \<^verbatim>\<open>x ? a : b\<close>.\<close>

fun truthy :: "jsval \<Rightarrow> bool" where
  "truthy JUndef = False"
| "truthy JNull = False"
| "truthy (JBool b) = b"
| "truthy (JNum n) = (case n of NaN \<Rightarrow> False | Fin r \<Rightarrow> r \<noteq> 0 | _ \<Rightarrow> True)"
| "truthy (JStr s) = (s \<noteq> [])"
| "truthy _ = True"

definition or_else :: "jsval \<Rightarrow> jsval \<Rightarrow> jsval" where
  "or_else a b = (if truthy a then a else b)"

text \<open>\<^verbatim>\<open>a ?? b\<close>.\<close>

definition nullish :: "jsval \<Rightarrow> bool" where
  "nullish v = (v = JUndef \<or> v = JNull)"

definition coalesce :: "jsval \<Rightarrow> jsval \<Rightarrow> jsval" where
  "coalesce a b = (if nullish a then b else a)"

fun prim_to_number :: "js_env \<Rightarrow> jsval \<Rightarrow> jsnum" where
  "prim_to_number env JUndef = NaN"
| "prim_to_number env JNull = Fin 0"
| "prim_to_number env (JBool b) = Fin (if b then 1 else 0)"
| "prim_to_number env (JNum n) = n"
| "prim_to_number env (JStr s) = StringToNumber env s"
| "prim_to_number env _ = NaN"

fun is_primitive :: "jsval \<Rightarrow> bool" where
  "is_primitive (JTime _) = False"
| "is_primitive (JArr _) = False"
| "is_primitive (JObj _) = False"
| "is_primitive (JFun _) = False"
| "is_primitive _ = True"

definition to_primitive :: "js_env \<Rightarrow> jsval \<Rightarrow> jsval" where
  "to_primitive env v = (if is_primitive v then v else ObjectToPrimitive env v)"

text \<open>\<^verbatim>\<open>Number(v)\<close>, and the conversion a relational or arithmetic operator applies to
  an operand whose other side is a number.\<close>

definition ToNumber :: "js_env \<Rightarrow> jsval \<Rightarrow> jsnum" where
  "ToNumber env v = prim_to_number env (to_primitive env v)"

definition is_number :: "jsval \<Rightarrow> bool" where
  "is_number v = (case v of JNum _ \<Rightarrow> True | _ \<Rightarrow> False)"

text \<open>Property access \<^verbatim>\<open>o.k\<close> on a parsed body or a document (\<^verbatim>\<open>undefined\<close> when absent).\<close>

definition fld :: "string \<Rightarrow> doc \<Rightarrow> jsval" where
  "fld k d = (case map_of d k of None \<Rightarrow> JUndef | Some v \<Rightarrow> v)"

definition get_prop :: "string \<Rightarrow> jsval \<Rightarrow> jsval" where
  "get_prop k v = (case v of JObj d \<Rightarrow> fld k d | _ \<Rightarrow> JUndef)"

text \<open>\<^verbatim>\<open>Array.isArray(x) ? x : []\<close>.\<close>

definition array_or_empty :: "jsval \<Rightarrow> jsval list" where
  "array_or_empty v = (case v of JArr xs \<Rightarrow> xs | _ \<Rightarrow> [])"

section \<open>The document store\<close>

text \<open>
  Firestore is outside the repository. It is modelled as two collections of documents
  keyed by identifier, and the writes the handlers issue are values, applied in order:
  what a handler persists, and in how many updates, is then part of its result.
  An object is a list of fields read by \<open>fld\<close>, which takes the first entry of a name;
  every operation below keeps to that reading.
  An update of a document that does not exist changes nothing here; no handler issues
  one, since each reads the document first and requests are served one at a time.
\<close>

type_synonym coll = "(string \<times> doc) list"

record store =
  matches :: coll
  profiles :: coll

datatype transform =
    SetTo jsval
  | ArrayUnion jsval
  | ArrayRemove jsval
  | ServerTimestamp

type_synonym patch = "(string \<times> transform) list"

datatype db_write =
    WAdd string patch
  | WUpdate string patch
  | WDelete string

fun apply_transform :: "int \<Rightarrow> jsval \<Rightarrow> transform \<Rightarrow> jsval" where
  "apply_transform now old (SetTo v) = v"
| "apply_transform now old ServerTimestamp = JTime now"
| "apply_transform now old (ArrayUnion x) =
     (case old of
        JArr xs \<Rightarrow> if x \<in> set xs then JArr xs else JArr (xs @ [x])
      | _ \<Rightarrow> JArr [x])"
| "apply_transform now old (ArrayRemove x) =
     (case old of
        JArr xs \<Rightarrow> JArr (filter (\<lambda>y. y \<noteq> x) xs)
      | _ \<Rightarrow> JArr [])"

definition apply_patch :: "int \<Rightarrow> patch \<Rightarrow> doc \<Rightarrow> doc" where
  "apply_patch now p d =
     fold (\<lambda>(k, t) d'. AList.update k (apply_transform now (fld k d') t) d') p d"

fun apply_write :: "int \<Rightarrow> coll \<Rightarrow> db_write \<Rightarrow> coll" where
  "apply_write now c (WAdd i p) = c @ [(i, map (\<lambda>kt. (fst kt, apply_transform now JUndef (snd kt))) p)]"
| "apply_write now c (WUpdate i p) = AList.map_entry i (apply_patch now p) c"
| "apply_write now c (WDelete i) = AList.delete i c"

definition commit :: "int \<Rightarrow> db_write list \<Rightarrow> store \<Rightarrow> store" where
  "commit now ws s = s\<lparr>matches := foldl (apply_write now) (matches s) ws\<rparr>"

text \<open>
  What the client library refuses to write (it throws, and the handler's \<^verbatim>\<open>catch\<close>
  answers 500): \<^verbatim>\<open>undefined\<close> and functions, at any depth, and an array directly inside
  an array. Its checks of field names are not modelled.
\<close>

fun is_array :: "jsval \<Rightarrow> bool" where
  "is_array (JArr _) = True"
| "is_array _ = False"

fun storable :: "jsval \<Rightarrow> bool" where
  "storable JUndef = False"
| "storable (JFun _) = False"
| "storable (JArr xs) = list_all (\<lambda>x. storable x \<and> \<not> is_array x) xs"
| "storable (JObj kvs) = list_all (\<lambda>kv. storable (snd kv)) kvs"
| "storable _ = True"

fun storable_transform :: "transform \<Rightarrow> bool" where
  "storable_transform (SetTo v) = storable v"
| "storable_transform (ArrayUnion v) = storable v"
| "storable_transform (ArrayRemove v) = storable v"
| "storable_transform ServerTimestamp = True"

definition storable_patch :: "patch \<Rightarrow> bool" where
  "storable_patch p = list_all (\<lambda>kt. storable_transform (snd kt)) p"

subsection \<open>Queries\<close>







text \<open>\<^verbatim>\<open>{ id: d.id, ...d.data() }\<close>: the document's fields after \<^verbatim>\<open>id\<close>, and a field
  \<^verbatim>\<open>id\<close> of the document itself replaces the identifier.\<close>

definition with_id :: "string \<times> doc \<Rightarrow> doc" where
  "with_id x =
     (''id'', (case map_of (snd x) ''id'' of None \<Rightarrow> JStr (fst x) | Some v \<Rightarrow> v))
       # AList.delete ''id'' (snd x)"

subsection \<open>Errors\<close>

text \<open>
  Every early \<^verbatim>\<open>return res.status(...)\<close> of the handlers, and the \<^verbatim>\<open>catch\<close> branch
  (\<open>Internal\<close>). \<open>http_status\<close> is the status the source sends; \<open>err_class\<close> is the name the
  specification's taxonomy gives it.
\<close>

datatype error =
    ProfileIncomplete
  | BadMode
  | BadBounds
  | MatchNotFound
  | MatchClosed
  | AlreadyJoined
  | MatchFull
  | LevelMismatch
  | IsCreator
  | NotMember
  | CreatorCannotLeave
  | NotAuthorized
  | Internal

fun http_status :: "error \<Rightarrow> nat" where
  "http_status MatchNotFound = 404"
| "http_status NotAuthorized = 403"
| "http_status Internal = 500"
| "http_status _ = 400"

datatype err_class = ValidationError | NotFound | Conflict | Forbidden | InternalError

fun err_class_of :: "error \<Rightarrow> err_class" where
  "err_class_of ProfileIncomplete = ValidationError"
| "err_class_of BadMode = ValidationError"
| "err_class_of BadBounds = ValidationError"
| "err_class_of MatchNotFound = NotFound"
| "err_class_of NotAuthorized = Forbidden"
| "err_class_of Internal = InternalError"
| "err_class_of _ = Conflict"

text \<open>A handler's result: the error, or the status and JSON body it sends; and the writes
  it issued, in order.\<close>

type_synonym outcome = "(error + nat \<times> jsval) \<times> db_write list"

text \<open>
  The protected routes run behind \<^verbatim>\<open>authMiddleware\<close>, which verifies the token with the
  identity provider and sets \<^verbatim>\<open>req.user.uid\<close>. A handler below is what runs after it: the
  argument \<open>uid\<close> is that identity, \<open>body\<close> is \<^verbatim>\<open>req.body\<close> as the JSON parser left it,
  \<open>mid\<close> is \<^verbatim>\<open>req.params.id\<close>, and the arguments \<open>q_\<close>\<dots> are the query parameters.
\<close>

definition message :: "string \<Rightarrow> jsval" where
  "message t = JObj [(''message'', JStr t)]"

text \<open>\<^verbatim>\<open>ref = await add(data); snap = await ref.get(); res.status(201).json({ id: ref.id, ...snap.data() })\<close>.
  The identifier the store generates is the parameter \<open>nid\<close>; the write is refused when
  the data cannot be stored or the identifier is taken.\<close>

definition add_and_return :: "int \<Rightarrow> string \<Rightarrow> coll \<Rightarrow> patch \<Rightarrow> outcome" where
  "add_and_return now nid c p =
     (if \<not> storable_patch p \<or> nid \<in> set (map fst c) then (Inl Internal, [])
      else (Inr (201, JObj (case map_of (apply_write now c (WAdd nid p)) nid of
                              None \<Rightarrow> [(''id'', JStr nid)]
                            | Some d \<Rightarrow> with_id (nid, d))),
            [WAdd nid p]))"

section \<open>The band revision (\<^verbatim>\<open>src/functions/index.js\<close>, first document)\<close>

definition BAND_RANK :: "(string \<times> nat) list" where
  "BAND_RANK = [(''8va'', 1), (''7ma'', 2), (''6ta'', 3), (''5ta'', 4), (''4ta'', 5), (''3ra'', 6)]"

text \<open>
  \<^verbatim>\<open>rankOf = (b) => BAND_RANK[b] ?? null\<close>. The lookup converts \<open>b\<close> to a property key
  and also finds what the object literal inherits: \<^verbatim>\<open>__proto__\<close> (an object without
  fields of its own) and the methods of every object.
\<close>

definition inherited_methods :: "string list" where
  "inherited_methods =
     [''constructor'', ''toString'', ''toLocaleString'', ''valueOf'', ''hasOwnProperty'',
      ''isPrototypeOf'', ''propertyIsEnumerable'', ''__defineGetter__'', ''__defineSetter__'',
      ''__lookupGetter__'', ''__lookupSetter__'']"

definition property_key :: "js_env \<Rightarrow> jsval \<Rightarrow> string" where
  "property_key env v = (case v of JStr s \<Rightarrow> s | _ \<Rightarrow> KeyOfNonString env v)"

definition rankOf :: "js_env \<Rightarrow> jsval \<Rightarrow> jsval" where
  "rankOf env b =
     (let k = property_key env b in
      case map_of BAND_RANK k of
        Some r \<Rightarrow> JNum (js_of_nat r)
      | None \<Rightarrow>
          if k = ''__proto__'' then JObj []
          else if k \<in> set inherited_methods then JFun k
          else JNull)"

text \<open>\<^verbatim>\<open>s.trim()\<close> on the white space of ASCII (a \<open>string\<close> here is a list of bytes).\<close>

definition js_space :: "char \<Rightarrow> bool" where
  "js_space c = (c \<in> {CHR 0x09, CHR 0x0A, CHR 0x0B, CHR 0x0C, CHR 0x0D, CHR 0x20})"

definition trim :: "string \<Rightarrow> string" where
  "trim s = rev (dropWhile js_space (rev (dropWhile js_space s)))"

text \<open>\<^verbatim>\<open>app.post('/matches')\<close>, lines 93-128. \<^verbatim>\<open>(p.title || 'Partido').trim()\<close> throws on a
  title that is not a string.\<close>

definition docData_b :: "js_env \<Rightarrow> string \<Rightarrow> jsval \<Rightarrow> string \<Rightarrow> patch" where
  "docData_b env uid p t =
     (let players = [JStr uid];
          levelMinBand = or_else (get_prop ''levelMin'' p) (JStr ''8va'');
          levelMaxBand = or_else (get_prop ''levelMax'' p) (JStr ''3ra'')
      in [(''title'', SetTo (JStr (trim t))),
          (''date'', SetTo (or_else (get_prop ''date'' p) JNull)),
          (''time'', SetTo (or_else (get_prop ''time'' p) JNull)),
          (''location'', SetTo (or_else (get_prop ''location'' p) JNull)),
          (''mode'', SetTo (JStr ''2v2'')),
          (''zone'', SetTo (or_else (get_prop ''zone'' p) JNull)),
          (''levelMin'', SetTo levelMinBand),
          (''levelMax'', SetTo levelMaxBand),
          (''levelMinRank'', SetTo (rankOf env levelMinBand)),
          (''levelMaxRank'', SetTo (rankOf env levelMaxBand)),
          (''createdBy'', SetTo (JStr uid)),
          (''createdAt'', ServerTimestamp),
          (''updatedAt'', ServerTimestamp),
          (''maxPlayers'', SetTo (JNum (Fin 4))),
          (''players'', SetTo (JArr players)),
          (''status'', SetTo (JStr (if length players \<ge> 4 then ''full'' else ''open'')))])"

definition create_b :: "js_env \<Rightarrow> int \<Rightarrow> string \<Rightarrow> store \<Rightarrow> string \<Rightarrow> jsval \<Rightarrow> outcome" where
  "create_b env now nid s uid body =
     (let p = or_else body (JObj [])
      in case or_else (get_prop ''title'' p) (JStr ''Partido'') of
           JStr t \<Rightarrow> add_and_return now nid (matches s) (docData_b env uid p t)
         | _ \<Rightarrow> (Inl Internal, []))"

text \<open>\<^verbatim>\<open>Number(x) || d\<close>.\<close>

definition number_or :: "jsnum \<Rightarrow> jsnum \<Rightarrow> jsnum" where
  "number_or n d = (if truthy (JNum n) then n else d)"

text \<open>\<^verbatim>\<open>app.post('/matches/:id/join')\<close>, lines 234-256.\<close>

definition join_b :: "js_env \<Rightarrow> store \<Rightarrow> string \<Rightarrow> string \<Rightarrow> outcome" where
  "join_b env s uid mid =
     (case map_of (matches s) mid of
        None \<Rightarrow> (Inl MatchNotFound, [])
      | Some m \<Rightarrow>
          (let players = array_or_empty (fld ''players'' m);
               maxPlayers = number_or (ToNumber env (fld ''maxPlayers'' m)) (Fin 4)
           in if fld ''createdBy'' m = JStr uid then (Inl IsCreator, [])
              else if JStr uid \<in> set players then (Inl AlreadyJoined, [])
              else if num_ge (js_of_nat (length players)) maxPlayers then (Inl MatchFull, [])
              else (Inr (200, message ''Te uniste''),
                    [WUpdate mid
                       [(''players'', ArrayUnion (JStr uid)),
                        (''status'', SetTo (JStr
                           (if num_ge (js_of_nat (length players + 1)) maxPlayers
                            then ''full'' else ''open''))),
                        (''updatedAt'', ServerTimestamp)]])))"

text \<open>\<^verbatim>\<open>app.post('/matches/:id/leave')\<close>, lines 259-278.\<close>

definition leave_b :: "store \<Rightarrow> string \<Rightarrow> string \<Rightarrow> outcome" where
  "leave_b s uid mid =
     (case map_of (matches s) mid of
        None \<Rightarrow> (Inl MatchNotFound, [])
      | Some m \<Rightarrow>
          (let players = array_or_empty (fld ''players'' m)
           in if JStr uid \<notin> set players then (Inl NotMember, [])
              else if fld ''createdBy'' m = JStr uid then (Inl CreatorCannotLeave, [])
              else (Inr (200, message ''Saliste del partido''),
                    [WUpdate mid
                       [(''players'', ArrayRemove (JStr uid)),
                        (''status'', SetTo (JStr ''open'')),
                        (''updatedAt'', ServerTimestamp)]])))"

text \<open>\<^verbatim>\<open>app.put('/matches/:id')\<close>, lines 281-310.\<close>

definition edit_patch :: "js_env \<Rightarrow> doc \<Rightarrow> jsval \<Rightarrow> patch" where
  "edit_patch env old p =
     [(''title'', SetTo (coalesce (get_prop ''title'' p) (fld ''title'' old))),
      (''date'', SetTo (coalesce (get_prop ''date'' p) (fld ''date'' old))),
      (''time'', SetTo (coalesce (get_prop ''time'' p) (fld ''time'' old))),
      (''location'', SetTo (coalesce (get_prop ''location'' p) (fld ''location'' old))),
      (''zone'', SetTo (coalesce (get_prop ''zone'' p) (fld ''zone'' old))),
      (''levelMin'', SetTo (coalesce (get_prop ''levelMin'' p) (fld ''levelMin'' old))),
      (''levelMax'', SetTo (coalesce (get_prop ''levelMax'' p) (fld ''levelMax'' old))),
      (''levelMinRank'', SetTo (if truthy (get_prop ''levelMin'' p)
                               then rankOf env (get_prop ''levelMin'' p)
                               else fld ''levelMinRank'' old)),
      (''levelMaxRank'', SetTo (if truthy (get_prop ''levelMax'' p)
                               then rankOf env (get_prop ''levelMax'' p)
                               else fld ''levelMaxRank'' old)),
      (''updatedAt'', ServerTimestamp)]"

definition edit_b :: "js_env \<Rightarrow> int \<Rightarrow> store \<Rightarrow> string \<Rightarrow> string \<Rightarrow> jsval \<Rightarrow> outcome" where
  "edit_b env now s uid mid body =
     (case map_of (matches s) mid of
        None \<Rightarrow> (Inl MatchNotFound, [])
      | Some old \<Rightarrow>
          if fld ''createdBy'' old \<noteq> JStr uid then (Inl NotAuthorized, [])
          else
            (let p = or_else body (JObj []);
                 patch = edit_patch env old p
             in if \<not> storable_patch patch then (Inl Internal, [])
                else (Inr (200, JObj (case map_of (apply_write now (matches s) (WUpdate mid patch)) mid of
                                        None \<Rightarrow> [(''id'', JStr mid)]
                                      | Some d \<Rightarrow> with_id (mid, d))),
                      [WUpdate mid patch])))"

text \<open>\<^verbatim>\<open>app.delete('/matches/:id')\<close>, lines 313-324.\<close>

definition delete_b :: "store \<Rightarrow> string \<Rightarrow> string \<Rightarrow> outcome" where
  "delete_b s uid mid =
     (case map_of (matches s) mid of
        None \<Rightarrow> (Inl MatchNotFound, [])
      | Some old \<Rightarrow>
          if fld ''createdBy'' old \<noteq> JStr uid then (Inl NotAuthorized, [])
          else (Inr (200, JObj [(''ok'', JBool True)]), [WDelete mid]))"


section \<open>The middle revision (\<^verbatim>\<open>src/functions/index.js\<close>, second document)\<close>

text \<open>
  \<^verbatim>\<open>app.post('/matches')\<close>, lines 404-420: the request body itself is the record; the
  handler assigns four of its fields and stores it. A body that is not an object cannot
  be stored.
\<close>

definition payload_m :: "string \<Rightarrow> doc \<Rightarrow> patch" where
  "payload_m uid d =
     (let p0 = map (\<lambda>kv. (fst kv, SetTo (snd kv))) d;
          p1 = AList.update ''createdBy'' (SetTo (JStr uid)) p0;
          p2 = AList.update ''createdAt'' ServerTimestamp p1;
          players = (case fld ''players'' d of
                       JArr ps \<Rightarrow> if length ps \<noteq> 0 then JArr ps else JArr [JStr uid]
                     | _ \<Rightarrow> JArr [JStr uid]);
          p3 = AList.update ''players'' (SetTo players) p2
      in AList.update ''status'' (SetTo (or_else (fld ''status'' d) (JStr ''open''))) p3)"

definition create_m :: "int \<Rightarrow> string \<Rightarrow> store \<Rightarrow> string \<Rightarrow> jsval \<Rightarrow> outcome" where
  "create_m now nid s uid body =
     (case or_else body (JObj []) of
        JObj d \<Rightarrow> add_and_return now nid (matches s) (payload_m uid d)
      | _ \<Rightarrow> (Inl Internal, []))"




text \<open>\<^verbatim>\<open>typeof match.maxPlayers === 'number' ? match.maxPlayers : 4\<close>.\<close>

definition maxPlayers_or_4 :: "doc \<Rightarrow> jsnum" where
  "maxPlayers_or_4 m = (case fld ''maxPlayers'' m of JNum n \<Rightarrow> n | _ \<Rightarrow> Fin 4)"

text \<open>\<^verbatim>\<open>app.post('/matches/:id/join')\<close>, lines 447-466.\<close>

definition join_m :: "store \<Rightarrow> string \<Rightarrow> string \<Rightarrow> outcome" where
  "join_m s uid mid =
     (case map_of (matches s) mid of
        None \<Rightarrow> (Inl MatchNotFound, [])
      | Some m \<Rightarrow>
          (let players = array_or_empty (fld ''players'' m);
               maxPlayers = maxPlayers_or_4 m
           in if JStr uid \<in> set players then (Inl AlreadyJoined, [])
              else if num_ge (js_of_nat (length players)) maxPlayers then (Inl MatchFull, [])
              else (Inr (200, message ''Te uniste al partido''),
                    [WUpdate mid [(''players'', ArrayUnion (JStr uid))]])))"

section \<open>The level-aware revision (\<^verbatim>\<open>src/unnamed/part_000\<close>)\<close>

text \<open>\<^verbatim>\<open>myProfile.level + 0.5\<close>: a sum of numbers, unless the level converts to a string,
  which \<^verbatim>\<open>+\<close> concatenates with \<^verbatim>\<open>"0.5"\<close>.\<close>

definition plus_half :: "js_env \<Rightarrow> jsval \<Rightarrow> jsval" where
  "plus_half env v =
     (case to_primitive env v of
        JStr t \<Rightarrow> JStr (t @ ''0.5'')
      | p \<Rightarrow> JNum (num_add (prim_to_number env p) (Fin (1 / 2))))"

definition minus_half :: "js_env \<Rightarrow> jsval \<Rightarrow> jsnum" where
  "minus_half env v = num_sub (ToNumber env v) (Fin (1 / 2))"

text \<open>\<^verbatim>\<open>Number.isFinite(Number(x)) ? Number(x) : d\<close>.\<close>

definition finite_or :: "js_env \<Rightarrow> jsval \<Rightarrow> jsnum \<Rightarrow> jsnum" where
  "finite_or env x d = (if isFinite (ToNumber env x) then ToNumber env x else d)"

text \<open>Lines 183-184: the bounds of a new match, from the body's \<^verbatim>\<open>levelMin\<close> and
  \<^verbatim>\<open>levelMax\<close> and the creator's level.\<close>

definition lvlMin_of :: "js_env \<Rightarrow> jsval \<Rightarrow> jsval \<Rightarrow> jsnum" where
  "lvlMin_of env levelMin level = finite_or env levelMin (math_max (Fin 1) (minus_half env level))"

definition lvlMax_of :: "js_env \<Rightarrow> jsval \<Rightarrow> jsval \<Rightarrow> jsnum" where
  "lvlMax_of env levelMax level =
     finite_or env levelMax (math_min (Fin 7) (ToNumber env (plus_half env level)))"

text \<open>\<^verbatim>\<open>meSnap.exists ? meSnap.data() : null\<close>, then \<^verbatim>\<open>!myProfile || !myProfile.level\<close>.\<close>

definition profile_with_level :: "store \<Rightarrow> string \<Rightarrow> doc option" where
  "profile_with_level s uid =
     (case map_of (profiles s) uid of
        None \<Rightarrow> None
      | Some pr \<Rightarrow> if truthy (fld ''level'' pr) then Some pr else None)"

text \<open>\<^verbatim>\<open>app.post('/matches')\<close>, lines 156-209.\<close>

definition payload_l :: "js_env \<Rightarrow> string \<Rightarrow> doc \<Rightarrow> jsval \<Rightarrow> patch" where
  "payload_l env uid myProfile b =
     (let title = get_prop ''title'' b;
          date = get_prop ''date'' b;
          time = get_prop ''time'' b;
          location = get_prop ''location'' b;
          mode = get_prop ''mode'' b;
          zone = get_prop ''zone'' b;
          maxPlayers = (if mode = JStr ''1v1'' then Fin 2 else Fin 4);
          lvlMin = lvlMin_of env (get_prop ''levelMin'' b) (fld ''level'' myProfile);
          lvlMax = lvlMax_of env (get_prop ''levelMax'' b) (fld ''level'' myProfile)
      in [(''title'', SetTo (or_else (or_else title location) (JStr ''Partido''))),
          (''date'', SetTo (or_else date JNull)),
          (''time'', SetTo (or_else time JNull)),
          (''location'', SetTo (or_else location JNull)),
          (''zone'', SetTo (or_else (or_else zone (fld ''zone'' myProfile)) JNull)),
          (''mode'', SetTo mode),
          (''maxPlayers'', SetTo (JNum maxPlayers)),
          (''levelMin'', SetTo (JNum lvlMin)),
          (''levelMax'', SetTo (JNum lvlMax)),
          (''players'', SetTo (JArr [JStr uid])),
          (''createdBy'', SetTo (JStr uid)),
          (''status'', SetTo (JStr ''open'')),
          (''createdAt'', ServerTimestamp)])"

definition create_l :: "js_env \<Rightarrow> int \<Rightarrow> string \<Rightarrow> store \<Rightarrow> string \<Rightarrow> jsval \<Rightarrow> outcome" where
  "create_l env now nid s uid body =
     (case profile_with_level s uid of
        None \<Rightarrow> (Inl ProfileIncomplete, [])
      | Some myProfile \<Rightarrow>
          (let b = or_else body (JObj []);
               mode = get_prop ''mode'' b
           in if \<not> truthy mode \<or> mode \<notin> set [JStr ''1v1'', JStr ''2v2''] then (Inl BadMode, [])
              else if num_gt (lvlMin_of env (get_prop ''levelMin'' b) (fld ''level'' myProfile))
                             (lvlMax_of env (get_prop ''levelMax'' b) (fld ''level'' myProfile))
                   then (Inl BadBounds, [])
              else add_and_return now nid (matches s) (payload_l env uid myProfile b)))"


text \<open>The level check of the join, lines 275-277. The stored bound is a number where it is
  compared; the joiner's level is whatever the profile holds.\<close>

definition lvlOk :: "js_env \<Rightarrow> jsval \<Rightarrow> doc \<Rightarrow> bool" where
  "lvlOk env level m =
     ((case fld ''levelMin'' m of JNum lo \<Rightarrow> num_ge (ToNumber env level) lo | _ \<Rightarrow> True) \<and>
      (case fld ''levelMax'' m of JNum hi \<Rightarrow> num_le (ToNumber env level) hi | _ \<Rightarrow> True))"

text \<open>
  \<^verbatim>\<open>app.post('/matches/:id/join')\<close>, lines 251-294. The handler writes the players, reads
  the record back, and writes the status in a second update when the record is full.
  After the first update \<^verbatim>\<open>after.players\<close> is an array, so \<^verbatim>\<open>after.players?.length || 0\<close>
  is its length.
\<close>

definition join_l :: "js_env \<Rightarrow> int \<Rightarrow> store \<Rightarrow> string \<Rightarrow> string \<Rightarrow> outcome" where
  "join_l env now s uid mid =
     (case profile_with_level s uid of
        None \<Rightarrow> (Inl ProfileIncomplete, [])
      | Some myProfile \<Rightarrow>
          (case map_of (matches s) mid of
             None \<Rightarrow> (Inl MatchNotFound, [])
           | Some m \<Rightarrow>
               (let players = array_or_empty (fld ''players'' m);
                    maxPlayers = maxPlayers_or_4 m
                in if fld ''status'' m \<noteq> JStr ''open'' then (Inl MatchClosed, [])
                   else if JStr uid \<in> set players then (Inl AlreadyJoined, [])
                   else if num_ge (js_of_nat (length players)) maxPlayers then (Inl MatchFull, [])
                   else if \<not> lvlOk env (fld ''level'' myProfile) m then (Inl LevelMismatch, [])
                   else
                     (let w1 = WUpdate mid [(''players'', ArrayUnion (JStr uid))]
                      in case map_of (apply_write now (matches s) w1) mid of
                           None \<Rightarrow> (Inl Internal, [w1])
                         | Some after \<Rightarrow>
                             if num_ge (js_of_nat (length (array_or_empty (fld ''players'' after))))
                                       (ToNumber env (fld ''maxPlayers'' after))
                             then (Inr (200, message ''Te uniste al partido''),
                                   [w1, WUpdate mid [(''status'', SetTo (JStr ''full''))]])
                             else (Inr (200, message ''Te uniste al partido''), [w1])))))"

section \<open>Sequences of requests\<close>

text \<open>
  Requests are served one at a time. A request carries the time the store stamps its
  writes with; a creation also carries the identifier the store generates. The level-aware
  revision reads profiles, so its sequences include any write to a profile.
\<close>

datatype req_b =
    CreateB string string jsval
  | JoinB string string
  | LeaveB string string
  | EditB string string jsval
  | DeleteB string string

fun step_b :: "js_env \<Rightarrow> store \<Rightarrow> int \<times> req_b \<Rightarrow> store" where
  "step_b env s (now, CreateB nid uid body) = commit now (snd (create_b env now nid s uid body)) s"
| "step_b env s (now, JoinB uid mid) = commit now (snd (join_b env s uid mid)) s"
| "step_b env s (now, LeaveB uid mid) = commit now (snd (leave_b s uid mid)) s"
| "step_b env s (now, EditB uid mid body) = commit now (snd (edit_b env now s uid mid body)) s"
| "step_b env s (now, DeleteB uid mid) = commit now (snd (delete_b s uid mid)) s"

definition run_b :: "js_env \<Rightarrow> (int \<times> req_b) list \<Rightarrow> store \<Rightarrow> store" where
  "run_b env rs s = foldl (step_b env) s rs"

datatype req_m =
    CreateM string string jsval
  | JoinM string string

fun step_m :: "store \<Rightarrow> int \<times> req_m \<Rightarrow> store" where
  "step_m s (now, CreateM nid uid body) = commit now (snd (create_m now nid s uid body)) s"
| "step_m s (now, JoinM uid mid) = commit now (snd (join_m s uid mid)) s"

definition run_m :: "(int \<times> req_m) list \<Rightarrow> store \<Rightarrow> store" where
  "run_m rs s = foldl step_m s rs"

datatype req_l =
    CreateL string string jsval
  | JoinL string string
  | ProfileWrite string doc

fun step_l :: "js_env \<Rightarrow> store \<Rightarrow> int \<times> req_l \<Rightarrow> store" where
  "step_l env s (now, CreateL nid uid body) = commit now (snd (create_l env now nid s uid body)) s"
| "step_l env s (now, JoinL uid mid) = commit now (snd (join_l env now s uid mid)) s"
| "step_l env s (now, ProfileWrite uid d) = s\<lparr>profiles := AList.update uid d (profiles s)\<rparr>"

definition run_l :: "js_env \<Rightarrow> (int \<times> req_l) list \<Rightarrow> store \<Rightarrow> store" where
  "run_l env rs s = foldl (step_l env) s rs"

definition no_matches :: "coll \<Rightarrow> store" where
  "no_matches pr = \<lparr>matches = [], profiles = pr\<rparr>"

section \<open>The properties of a match record\<close>

definition players_of :: "doc \<Rightarrow> jsval list" where
  "players_of d = array_or_empty (fld ''players'' d)"


text \<open>The status is \<^verbatim>\<open>"full"\<close> when the number of players is \<^verbatim>\<open>maxPlayers\<close>, and
  \<^verbatim>\<open>"open"\<close> otherwise.\<close>

definition status_derived :: "doc \<Rightarrow> bool" where
  "status_derived d =
     (fld ''status'' d =
        JStr (if fld ''maxPlayers'' d = JNum (js_of_nat (length (players_of d)))
              then ''full'' else ''open''))"

text \<open>
  The shape of a record that the band and the level-aware revision keep: \<^verbatim>\<open>maxPlayers\<close>
  is the number \<open>c\<close>, the players are a list of at most \<open>c\<close>, and the status is
  \<^verbatim>\<open>"full"\<close> for a list of \<open>c\<close> and \<^verbatim>\<open>"open"\<close> for a shorter one; \<open>c\<close> is 2 or 4.
\<close>

definition good_for :: "nat \<Rightarrow> doc \<Rightarrow> bool" where
  "good_for c d =
     (fld ''maxPlayers'' d = JNum (js_of_nat c) \<and>
      (case fld ''players'' d of
         JArr ps \<Rightarrow> length ps \<le> c \<and>
                   fld ''status'' d = JStr (if length ps = c then ''full'' else ''open'')
       | _ \<Rightarrow> False))"

definition good_match :: "doc \<Rightarrow> bool" where
  "good_match d = (good_for 2 d \<or> good_for 4 d)"

section \<open>Concrete inputs\<close>

text \<open>
  The evaluations at concrete inputs below use this interpretation of the conversions:
  a string of decimal digits is the number it writes, the empty string is 0, any other
  string is not a number; the other two conversions are not exercised by these inputs.
\<close>

definition digit_of :: "char \<Rightarrow> nat option" where
  "digit_of c = map_of (zip ''0123456789'' [0, 1, 2, 3, 4, 5, 6, 7, 8, 9]) c"

fun digits_value :: "nat \<Rightarrow> string \<Rightarrow> nat option" where
  "digits_value acc [] = Some acc"
| "digits_value acc (c # cs) =
     (case digit_of c of None \<Rightarrow> None | Some k \<Rightarrow> digits_value (10 * acc + k) cs)"

definition decimal_string :: "string \<Rightarrow> jsnum" where
  "decimal_string t = (case digits_value 0 t of None \<Rightarrow> NaN | Some n \<Rightarrow> js_of_nat n)"

definition object_string :: "jsval \<Rightarrow> jsval" where
  "object_string v = JStr ''[object Object]''"

definition object_key :: "jsval \<Rightarrow> string" where
  "object_key v = ''[object Object]''"

definition decimal_env :: js_env where
  "decimal_env =
     \<lparr>StringToNumber = decimal_string, ObjectToPrimitive = object_string,
      KeyOfNonString = object_key\<rparr>"

text \<open>A record as the band revision creates it, after a second player joined.\<close>

definition match_b1 :: doc where
  "match_b1 =
     [(''title'', JStr ''Partido''), (''date'', JNull), (''time'', JNull), (''location'', JNull),
      (''mode'', JStr ''2v2''), (''zone'', JNull), (''levelMin'', JStr ''8va''),
      (''levelMax'', JStr ''3ra''), (''levelMinRank'', JNum (Fin 1)),
      (''levelMaxRank'', JNum (Fin 6)), (''createdBy'', JStr ''u1''), (''createdAt'', JTime 5),
      (''updatedAt'', JTime 6), (''maxPlayers'', JNum (Fin 4)),
      (''players'', JArr [JStr ''u1'', JStr ''u2'']), (''status'', JStr ''open'')]"

definition store_b1 :: store where
  "store_b1 = \<lparr>matches = [(''m1'', match_b1)], profiles = []\<rparr>"

text \<open>A record as the middle revision creates it from an empty body: no \<^verbatim>\<open>maxPlayers\<close>.
  The profile of \<^verbatim>\<open>u2\<close> declares level 4.\<close>

definition match_nocap :: doc where
  "match_nocap =
     [(''createdBy'', JStr ''u1''), (''createdAt'', JTime 5), (''players'', JArr [JStr ''u1'']),
      (''status'', JStr ''open'')]"

definition profile_u2 :: doc where
  "profile_u2 = [(''uid'', JStr ''u2''), (''displayName'', JStr ''Ana''), (''level'', JNum (Fin 4))]"

definition store_nocap :: store where
  "store_nocap = \<lparr>matches = [(''m1'', match_nocap)], profiles = [(''u2'', profile_u2)]\<rparr>"

text \<open>A record whose \<^verbatim>\<open>maxPlayers\<close> is the string \<^verbatim>\<open>"2"\<close>, as the middle revision stores it
  from a body that sends the field as text, with two players.\<close>

definition match_text_cap :: doc where
  "match_text_cap =
     [(''maxPlayers'', JStr ''2''), (''createdBy'', JStr ''u1''), (''createdAt'', JTime 5),
      (''players'', JArr [JStr ''u1'', JStr ''u3'']), (''status'', JStr ''open'')]"

definition store_text_cap :: store where
  "store_text_cap = \<lparr>matches = [(''m1'', match_text_cap)], profiles = []\<rparr>"

text \<open>A body for an edit that also names fields the handler does not copy.\<close>

definition edit_body :: jsval where
  "edit_body =
     JObj [(''title'', JStr ''Nuevo''), (''players'', JArr []), (''status'', JStr ''full''),
           (''maxPlayers'', JNum (Fin 99)), (''createdBy'', JStr ''u7'')]"

text \<open>A 1v1 record as the level-aware revision creates it for a creator of level 4, and
  the profiles of the creator and of \<^verbatim>\<open>u2\<close>.\<close>

definition match_l1 :: doc where
  "match_l1 =
     [(''title'', JStr ''Partido''), (''date'', JNull), (''time'', JNull), (''location'', JNull),
      (''zone'', JNull), (''mode'', JStr ''1v1''), (''maxPlayers'', JNum (Fin 2)),
      (''levelMin'', JNum (Fin (7 / 2))), (''levelMax'', JNum (Fin (9 / 2))),
      (''players'', JArr [JStr ''u1'']), (''createdBy'', JStr ''u1''),
      (''status'', JStr ''open''), (''createdAt'', JTime 5)]"

definition profile_u1 :: doc where
  "profile_u1 = [(''uid'', JStr ''u1''), (''displayName'', JStr ''Leo''), (''level'', JNum (Fin 4))]"

definition store_l1 :: store where
  "store_l1 =
     \<lparr>matches = [(''m1'', match_l1)], profiles = [(''u1'', profile_u1), (''u2'', profile_u2)]\<rparr>"

text \<open>Bodies of creation requests: a 1v1 match without bounds; one with the bounds
  reversed; one without a mode; and one that names the fields the middle revision takes
  from the body.\<close>

definition body_1v1 :: jsval where
  "body_1v1 = JObj [(''mode'', JStr ''1v1'')]"

definition body_reversed :: jsval where
  "body_reversed = JObj [(''mode'', JStr ''2v2''), (''levelMin'', JNum (Fin 5)), (''levelMax'', JNum (Fin 3))]"

definition body_no_mode :: jsval where
  "body_no_mode = JObj [(''title'', JStr ''Partido'')]"

definition body_own_fields :: jsval where
  "body_own_fields =
     JObj [(''players'', JArr [JStr ''x'', JStr ''y'', JStr ''z'']), (''status'', JStr ''full''),
           (''maxPlayers'', JNum (Fin 2))]"

definition store_profiles :: store where
  "store_profiles = no_matches [(''u1'', profile_u1), (''u2'', profile_u2)]"






text \<open>A body that asks for two places, for the middle revision.\<close>

definition body_two_places :: jsval where
  "body_two_places = JObj [(''maxPlayers'', JNum (Fin 2))]"

text \<open>The 1v1 record after \<^verbatim>\<open>u2\<close> joined it, and the record the middle revision holds
  after a creation with two places and one join.\<close>

definition match_l1_full :: doc where
  "match_l1_full =
     [(''title'', JStr ''Partido''), (''date'', JNull), (''time'', JNull), (''location'', JNull),
      (''zone'', JNull), (''mode'', JStr ''1v1''), (''maxPlayers'', JNum (Fin 2)),
      (''levelMin'', JNum (Fin (7 / 2))), (''levelMax'', JNum (Fin (9 / 2))),
      (''players'', JArr [JStr ''u1'', JStr ''u2'']), (''createdBy'', JStr ''u1''),
      (''status'', JStr ''full''), (''createdAt'', JTime 5)]"

definition match_m_two :: doc where
  "match_m_two =
     [(''maxPlayers'', JNum (Fin 2)), (''createdBy'', JStr ''u1''), (''createdAt'', JTime 5),
      (''players'', JArr [JStr ''u1'', JStr ''u2'']), (''status'', JStr ''open'')]"


section \<open>Basic facts\<close>

lemma fld_update: "fld k (AList.update k' v d) = (if k = k' then v else fld k d)"
  by (simp add: fld_def update_conv')

lemma apply_patch_Nil: "apply_patch now [] d = d"
  by (simp add: apply_patch_def)

lemma apply_patch_Cons:
  "apply_patch now (kt # p) d =
     apply_patch now p (AList.update (fst kt) (apply_transform now (fld (fst kt) d) (snd kt)) d)"
  by (cases kt) (simp add: apply_patch_def)

text \<open>A patch whose field names are distinct acts on each field by itself.\<close>

lemma fld_apply_patch:
  "distinct (map fst p) \<Longrightarrow>
   fld k (apply_patch now p d) =
     (case map_of p k of None \<Rightarrow> fld k d | Some t \<Rightarrow> apply_transform now (fld k d) t)"
proof (induction p arbitrary: d)
  case Nil
  show ?case by (simp add: apply_patch_Nil)
next
  case (Cons kt p)
  obtain k' t where kt: "kt = (k', t)" by (cases kt)
  from Cons.prems kt have dist: "distinct (map fst p)" and fresh: "k' \<notin> fst ` set p" by auto
  from fresh have none: "map_of p k' = None" by (simp add: map_of_eq_None_iff)
  show ?case
    using Cons.IH [OF dist] none
    by (simp add: apply_patch_Cons kt fld_update split: option.split)
qed

lemma commit_Nil: "commit now [] s = s"
  by (simp add: commit_def)

lemma matches_commit_single: "matches (commit now [w] s) = apply_write now (matches s) w"
  by (simp add: commit_def)

lemma num_ge_nat: "num_ge (js_of_nat a) (Fin (of_nat b)) = (b \<le> a)"
  by (simp add: num_ge_def num_le_def js_of_nat_def is_nan_def not_less)

lemma num_ge_nat_4: "num_ge (js_of_nat a) (Fin 4) = (4 \<le> a)"
  using num_ge_nat [of a 4] by simp

lemma num_ge_nat_2: "num_ge (js_of_nat a) (Fin 2) = (2 \<le> a)"
  using num_ge_nat [of a 2] by simp

lemma maxPlayers_or_4_non_number:
  "\<not> is_number (fld ''maxPlayers'' m) \<Longrightarrow> maxPlayers_or_4 m = Fin 4"
  by (cases "fld ''maxPlayers'' m") (simp_all add: maxPlayers_or_4_def is_number_def)

section \<open>Leaving a match\<close>

text \<open>
  C8. For a leave request on an existing match: a member who is not the creator is removed
  from \<^verbatim>\<open>players\<close> (every other player stays, in order) and the status becomes
  \<^verbatim>\<open>"open"\<close> whatever it was; the creator is refused with a conflict (status 400) and
  nothing is written; a caller who is not a member is refused with a conflict and nothing
  is written.
\<close>

theorem leave_b_spec:
  assumes m: "map_of (matches s) mid = Some m"
  shows "(JStr uid \<in> set (players_of m) \<and> fld ''createdBy'' m \<noteq> JStr uid \<longrightarrow>
            (\<exists>r. fst (leave_b s uid mid) = Inr r) \<and>
            (\<exists>m'. map_of (matches (commit now (snd (leave_b s uid mid)) s)) mid = Some m' \<and>
                  fld ''players'' m' = JArr (filter (\<lambda>x. x \<noteq> JStr uid) (players_of m)) \<and>
                  fld ''status'' m' = JStr ''open''))
       \<and> (fld ''createdBy'' m = JStr uid \<longrightarrow>
            (\<exists>e. fst (leave_b s uid mid) = Inl e \<and> err_class_of e = Conflict \<and> http_status e = 400) \<and>
            commit now (snd (leave_b s uid mid)) s = s)
       \<and> (JStr uid \<notin> set (players_of m) \<longrightarrow>
            fst (leave_b s uid mid) = Inl NotMember \<and> err_class_of NotMember = Conflict \<and>
            http_status NotMember = 400 \<and>
            commit now (snd (leave_b s uid mid)) s = s)"
proof (intro conjI impI)
  assume a: "JStr uid \<in> set (players_of m) \<and> fld ''createdBy'' m \<noteq> JStr uid"
  then have out: "leave_b s uid mid =
      (Inr (200, message ''Saliste del partido''),
       [WUpdate mid [(''players'', ArrayRemove (JStr uid)), (''status'', SetTo (JStr ''open'')),
                     (''updatedAt'', ServerTimestamp)]])"
    using m by (simp add: leave_b_def players_of_def)
  show "\<exists>r. fst (leave_b s uid mid) = Inr r" by (simp add: out)
  from a obtain ps where ps: "fld ''players'' m = JArr ps"
    by (cases "fld ''players'' m") (simp_all add: players_of_def array_or_empty_def)
  show "\<exists>m'. map_of (matches (commit now (snd (leave_b s uid mid)) s)) mid = Some m' \<and>
          fld ''players'' m' = JArr (filter (\<lambda>x. x \<noteq> JStr uid) (players_of m)) \<and>
          fld ''status'' m' = JStr ''open''"
    by (simp add: out matches_commit_single map_of_map_entry m fld_apply_patch ps
        players_of_def array_or_empty_def)
next
  assume c: "fld ''createdBy'' m = JStr uid"
  then have "snd (leave_b s uid mid) = []" and
    "fst (leave_b s uid mid) = Inl NotMember \<or> fst (leave_b s uid mid) = Inl CreatorCannotLeave"
    using m by (auto simp: leave_b_def Let_def)
  then show "\<exists>e. fst (leave_b s uid mid) = Inl e \<and> err_class_of e = Conflict \<and> http_status e = 400"
    and "commit now (snd (leave_b s uid mid)) s = s"
    by (auto simp: commit_Nil)
next
  assume n: "JStr uid \<notin> set (players_of m)"
  then have out: "leave_b s uid mid = (Inl NotMember, [])"
    using m by (simp add: leave_b_def players_of_def)
  show "fst (leave_b s uid mid) = Inl NotMember" by (simp add: out)
  show "err_class_of NotMember = Conflict" by simp
  show "http_status NotMember = 400" by simp
  show "commit now (snd (leave_b s uid mid)) s = s" by (simp add: out commit_Nil)
qed

text \<open>On the record of \<^verbatim>\<open>u1\<close> with the players \<^verbatim>\<open>u1\<close> and \<^verbatim>\<open>u2\<close>: \<^verbatim>\<open>u2\<close> leaves,
  the creator \<^verbatim>\<open>u1\<close> is refused, the stranger \<^verbatim>\<open>u9\<close> is refused.\<close>

theorem leave_b_spec_witness:
  "map_of (matches store_b1) ''m1'' = Some match_b1
   \<and> JStr ''u2'' \<in> set (players_of match_b1) \<and> fld ''createdBy'' match_b1 \<noteq> JStr ''u2''
   \<and> (\<exists>m'. map_of (matches (commit 7 (snd (leave_b store_b1 ''u2'' ''m1'')) store_b1)) ''m1'' = Some m' \<and>
           fld ''players'' m' = JArr [JStr ''u1''] \<and> fld ''status'' m' = JStr ''open'')
   \<and> fld ''createdBy'' match_b1 = JStr ''u1''
   \<and> (\<exists>e. fst (leave_b store_b1 ''u1'' ''m1'') = Inl e \<and> err_class_of e = Conflict)
   \<and> commit 7 (snd (leave_b store_b1 ''u1'' ''m1'')) store_b1 = store_b1
   \<and> JStr ''u9'' \<notin> set (players_of match_b1)
   \<and> fst (leave_b store_b1 ''u9'' ''m1'') = Inl NotMember"
proof -
  have h: "map_of (matches store_b1) ''m1'' = Some match_b1"
    by (simp add: store_b1_def)
  have ps: "players_of match_b1 = [JStr ''u1'', JStr ''u2'']"
    by (simp add: players_of_def match_b1_def fld_def array_or_empty_def)
  have cr: "fld ''createdBy'' match_b1 = JStr ''u1''"
    by (simp add: match_b1_def fld_def)
  have a2: "JStr ''u2'' \<in> set (players_of match_b1) \<and> fld ''createdBy'' match_b1 \<noteq> JStr ''u2''"
    by (simp add: ps cr)
  have a9: "JStr ''u9'' \<notin> set (players_of match_b1)"
    by (simp add: ps)
  from leave_b_spec [OF h, of "''u2''" 7] a2
  have "\<exists>m'. map_of (matches (commit 7 (snd (leave_b store_b1 ''u2'' ''m1'')) store_b1)) ''m1'' = Some m' \<and>
           fld ''players'' m' = JArr [JStr ''u1''] \<and> fld ''status'' m' = JStr ''open''"
    by (simp add: ps)
  moreover from leave_b_spec [OF h, of "''u1''" 7] cr
  have "(\<exists>e. fst (leave_b store_b1 ''u1'' ''m1'') = Inl e \<and> err_class_of e = Conflict)
        \<and> commit 7 (snd (leave_b store_b1 ''u1'' ''m1'')) store_b1 = store_b1"
    by blast
  moreover from leave_b_spec [OF h, of "''u9''" 7] a9
  have "fst (leave_b store_b1 ''u9'' ''m1'') = Inl NotMember"
    by blast
  ultimately show ?thesis using h a2 a9 cr by blast
qed

section \<open>Editing a match\<close>

lemma distinct_edit_patch: "distinct (map fst (edit_patch env old p))"
  by (simp add: edit_patch_def)

lemma map_of_edit_patch_other:
  "k \<notin> {''title'', ''date'', ''time'', ''location'', ''zone'', ''levelMin'', ''levelMax'',
         ''levelMinRank'', ''levelMaxRank'', ''updatedAt''} \<Longrightarrow>
   map_of (edit_patch env old p) k = None"
  by (simp add: edit_patch_def)

text \<open>
  C9. An edit that succeeds leaves the record's \<^verbatim>\<open>players\<close>, \<^verbatim>\<open>status\<close>,
  \<^verbatim>\<open>maxPlayers\<close>, \<^verbatim>\<open>mode\<close>, \<^verbatim>\<open>createdBy\<close> and \<^verbatim>\<open>createdAt\<close> as they were, whatever
  the body holds; the only fields it can change are the title, date, time, location, zone,
  the two level bounds, their two ranks and \<^verbatim>\<open>updatedAt\<close>.
\<close>

theorem edit_b_frame:
  assumes ok: "fst (edit_b env now s uid mid body) = Inr r"
  shows "\<exists>old new.
           map_of (matches s) mid = Some old \<and>
           map_of (matches (commit now (snd (edit_b env now s uid mid body)) s)) mid = Some new \<and>
           fld ''players'' new = fld ''players'' old \<and>
           fld ''status'' new = fld ''status'' old \<and>
           fld ''maxPlayers'' new = fld ''maxPlayers'' old \<and>
           fld ''mode'' new = fld ''mode'' old \<and>
           fld ''createdBy'' new = fld ''createdBy'' old \<and>
           fld ''createdAt'' new = fld ''createdAt'' old \<and>
           (\<forall>k. k \<notin> {''title'', ''date'', ''time'', ''location'', ''zone'', ''levelMin'',
                      ''levelMax'', ''levelMinRank'', ''levelMaxRank'', ''updatedAt''} \<longrightarrow>
                fld k new = fld k old)"
proof -
  from ok obtain old where old: "map_of (matches s) mid = Some old"
    by (cases "map_of (matches s) mid") (simp_all add: edit_b_def)
  let ?p = "edit_patch env old (or_else body (JObj []))"
  from ok old have w: "snd (edit_b env now s uid mid body) = [WUpdate mid ?p]"
    by (simp add: edit_b_def Let_def split: if_splits)
  let ?new = "apply_patch now ?p old"
  have new: "map_of (matches (commit now (snd (edit_b env now s uid mid body)) s)) mid = Some ?new"
    by (simp add: w matches_commit_single map_of_map_entry old)
  have frame: "fld k ?new = fld k old"
    if "k \<notin> {''title'', ''date'', ''time'', ''location'', ''zone'', ''levelMin'',
               ''levelMax'', ''levelMinRank'', ''levelMaxRank'', ''updatedAt''}" for k
    by (simp add: fld_apply_patch [OF distinct_edit_patch] map_of_edit_patch_other [OF that])
  have "fld ''players'' ?new = fld ''players'' old" by (rule frame) simp
  moreover have "fld ''status'' ?new = fld ''status'' old" by (rule frame) simp
  moreover have "fld ''maxPlayers'' ?new = fld ''maxPlayers'' old" by (rule frame) simp
  moreover have "fld ''mode'' ?new = fld ''mode'' old" by (rule frame) simp
  moreover have "fld ''createdBy'' ?new = fld ''createdBy'' old" by (rule frame) simp
  moreover have "fld ''createdAt'' ?new = fld ''createdAt'' old" by (rule frame) simp
  ultimately show ?thesis using old new frame by blast
qed

text \<open>The creator \<^verbatim>\<open>u1\<close> edits the record with a body that names \<^verbatim>\<open>players\<close>,
  \<^verbatim>\<open>status\<close>, \<^verbatim>\<open>maxPlayers\<close> and \<^verbatim>\<open>createdBy\<close>: the edit succeeds and the four keep
  their values.\<close>

theorem edit_b_frame_witness:
  "(\<exists>r. fst (edit_b decimal_env 9 store_b1 ''u1'' ''m1'' edit_body) = Inr r)
   \<and> (\<exists>new. map_of (matches (commit 9 (snd (edit_b decimal_env 9 store_b1 ''u1'' ''m1'' edit_body))
                              store_b1)) ''m1'' = Some new \<and>
            fld ''players'' new = JArr [JStr ''u1'', JStr ''u2''] \<and>
            fld ''status'' new = JStr ''open'' \<and>
            fld ''maxPlayers'' new = JNum (Fin 4) \<and>
            fld ''createdBy'' new = JStr ''u1'')"
proof -
  have cr: "fld ''createdBy'' match_b1 = JStr ''u1''"
    by (simp add: match_b1_def fld_def)
  have st: "storable_patch (edit_patch decimal_env match_b1 edit_body)"
    by (simp add: storable_patch_def edit_patch_def edit_body_def match_b1_def get_prop_def
        fld_def coalesce_def nullish_def)
  have ok: "\<exists>r. fst (edit_b decimal_env 9 store_b1 ''u1'' ''m1'' edit_body) = Inr r"
    using st by (simp add: edit_b_def store_b1_def cr Let_def or_else_def edit_body_def [symmetric])
       (simp add: edit_body_def or_else_def)
  then obtain r where r: "fst (edit_b decimal_env 9 store_b1 ''u1'' ''m1'' edit_body) = Inr r" ..
  have old: "map_of (matches store_b1) ''m1'' = Some match_b1"
    by (simp add: store_b1_def)
  have vals: "fld ''players'' match_b1 = JArr [JStr ''u1'', JStr ''u2'']"
    "fld ''status'' match_b1 = JStr ''open''" "fld ''maxPlayers'' match_b1 = JNum (Fin 4)"
    by (simp_all add: match_b1_def fld_def)
  from edit_b_frame [OF r] old vals cr
  have "\<exists>new. map_of (matches (commit 9 (snd (edit_b decimal_env 9 store_b1 ''u1'' ''m1'' edit_body))
                              store_b1)) ''m1'' = Some new \<and>
            fld ''players'' new = JArr [JStr ''u1'', JStr ''u2''] \<and>
            fld ''status'' new = JStr ''open'' \<and>
            fld ''maxPlayers'' new = JNum (Fin 4) \<and>
            fld ''createdBy'' new = JStr ''u1''"
    by auto
  with ok show ?thesis by blast
qed

section \<open>The capacity a join compares with\<close>

text \<open>
  C10, as the code has it. In the middle and the level-aware revision a stored
  \<^verbatim>\<open>maxPlayers\<close> that is absent or not of type number counts as 4: the join is refused
  as full exactly when the record has 4 players or more. In the band revision the
  capacity is \<^verbatim>\<open>Number(m.maxPlayers) || 4\<close>: it is 4 when the field is absent, and when the
  field converts to NaN or to 0; a field that converts to another number (the string
  \<^verbatim>\<open>"2"\<close>, \<^verbatim>\<open>true\<close>) is compared as converted.
\<close>

theorem capacity_default:
  assumes m: "map_of (matches s) mid = Some m"
  shows "(\<not> is_number (fld ''maxPlayers'' m) \<and> JStr uid \<notin> set (players_of m) \<longrightarrow>
            (fst (join_m s uid mid) = Inl MatchFull \<longleftrightarrow> 4 \<le> length (players_of m)) \<and>
            (length (players_of m) < 4 \<longrightarrow> (\<exists>r. fst (join_m s uid mid) = Inr r)))
       \<and> (\<not> is_number (fld ''maxPlayers'' m) \<and> profile_with_level s uid = Some pr \<and>
          fld ''status'' m = JStr ''open'' \<and> JStr uid \<notin> set (players_of m) \<longrightarrow>
            (fst (join_l env now s uid mid) = Inl MatchFull \<longleftrightarrow> 4 \<le> length (players_of m)))
       \<and> (fld ''createdBy'' m \<noteq> JStr uid \<and> JStr uid \<notin> set (players_of m) \<and>
          (fld ''maxPlayers'' m = JUndef \<or> \<not> truthy (JNum (ToNumber env (fld ''maxPlayers'' m)))) \<longrightarrow>
            (fst (join_b env s uid mid) = Inl MatchFull \<longleftrightarrow> 4 \<le> length (players_of m)) \<and>
            (length (players_of m) < 4 \<longrightarrow> (\<exists>r. fst (join_b env s uid mid) = Inr r)))
       \<and> (fld ''createdBy'' m \<noteq> JStr uid \<and> JStr uid \<notin> set (players_of m) \<and>
          truthy (JNum (ToNumber env (fld ''maxPlayers'' m))) \<longrightarrow>
            (fst (join_b env s uid mid) = Inl MatchFull \<longleftrightarrow>
               num_ge (js_of_nat (length (players_of m))) (ToNumber env (fld ''maxPlayers'' m))))"
proof (intro conjI impI)
  assume a: "\<not> is_number (fld ''maxPlayers'' m) \<and> JStr uid \<notin> set (players_of m)"
  then show "fst (join_m s uid mid) = Inl MatchFull \<longleftrightarrow> 4 \<le> length (players_of m)"
    using m by (simp add: join_m_def players_of_def maxPlayers_or_4_non_number num_ge_nat_4)
  assume "length (players_of m) < 4"
  with a show "\<exists>r. fst (join_m s uid mid) = Inr r"
    using m by (simp add: join_m_def players_of_def maxPlayers_or_4_non_number num_ge_nat_4)
next
  assume a: "\<not> is_number (fld ''maxPlayers'' m) \<and> profile_with_level s uid = Some pr \<and>
          fld ''status'' m = JStr ''open'' \<and> JStr uid \<notin> set (players_of m)"
  then show "fst (join_l env now s uid mid) = Inl MatchFull \<longleftrightarrow> 4 \<le> length (players_of m)"
    using m
    by (simp add: join_l_def players_of_def maxPlayers_or_4_non_number Let_def map_of_map_entry
        num_ge_nat_4 split: option.splits)
next
  assume a: "fld ''createdBy'' m \<noteq> JStr uid \<and> JStr uid \<notin> set (players_of m) \<and>
          (fld ''maxPlayers'' m = JUndef \<or> \<not> truthy (JNum (ToNumber env (fld ''maxPlayers'' m))))"
  then have cap: "number_or (ToNumber env (fld ''maxPlayers'' m)) (Fin 4) = Fin 4"
    by (auto simp: number_or_def ToNumber_def to_primitive_def)
  from a show "fst (join_b env s uid mid) = Inl MatchFull \<longleftrightarrow> 4 \<le> length (players_of m)"
    using m by (simp add: join_b_def players_of_def cap Let_def num_ge_nat_4)
  assume "length (players_of m) < 4"
  with a show "\<exists>r. fst (join_b env s uid mid) = Inr r"
    using m by (simp add: join_b_def players_of_def cap Let_def num_ge_nat_4)
next
  assume a: "fld ''createdBy'' m \<noteq> JStr uid \<and> JStr uid \<notin> set (players_of m) \<and>
          truthy (JNum (ToNumber env (fld ''maxPlayers'' m)))"
  then have cap: "number_or (ToNumber env (fld ''maxPlayers'' m)) (Fin 4) =
      ToNumber env (fld ''maxPlayers'' m)"
    by (simp add: number_or_def)
  from a show "fst (join_b env s uid mid) = Inl MatchFull \<longleftrightarrow>
               num_ge (js_of_nat (length (players_of m))) (ToNumber env (fld ''maxPlayers'' m))"
    using m by (simp add: join_b_def players_of_def cap Let_def)
qed

lemma match_nocap_facts:
  "map_of (matches store_nocap) ''m1'' = Some match_nocap"
  "fld ''maxPlayers'' match_nocap = JUndef"
  "players_of match_nocap = [JStr ''u1'']"
  "fld ''createdBy'' match_nocap = JStr ''u1''"
  "fld ''status'' match_nocap = JStr ''open''"
  "profile_with_level store_nocap ''u2'' = Some profile_u2"
  by (simp_all add: store_nocap_def match_nocap_def fld_def players_of_def array_or_empty_def
      profile_with_level_def profile_u2_def)

lemma match_text_cap_facts:
  "map_of (matches store_text_cap) ''m1'' = Some match_text_cap"
  "fld ''maxPlayers'' match_text_cap = JStr ''2''"
  "players_of match_text_cap = [JStr ''u1'', JStr ''u3'']"
  "fld ''createdBy'' match_text_cap = JStr ''u1''"
  by (simp_all add: store_text_cap_def match_text_cap_def fld_def players_of_def
      array_or_empty_def)

lemma decimal_string_2: "ToNumber decimal_env (JStr ''2'') = Fin 2"
  by (simp add: ToNumber_def to_primitive_def decimal_env_def decimal_string_def digit_of_def
      js_of_nat_def)

text \<open>A record without \<^verbatim>\<open>maxPlayers\<close> and with one player admits \<^verbatim>\<open>u2\<close> in the three
  revisions; a record whose \<^verbatim>\<open>maxPlayers\<close> is the text \<^verbatim>\<open>"2"\<close> and that has two players
  is full for the band revision, whose capacity is then 2.\<close>

theorem capacity_default_witness:
  "map_of (matches store_nocap) ''m1'' = Some match_nocap
   \<and> \<not> is_number (fld ''maxPlayers'' match_nocap)
   \<and> JStr ''u2'' \<notin> set (players_of match_nocap)
   \<and> length (players_of match_nocap) < 4
   \<and> (\<exists>r. fst (join_m store_nocap ''u2'' ''m1'') = Inr r)
   \<and> fst (join_l decimal_env 8 store_nocap ''u2'' ''m1'') \<noteq> Inl MatchFull
   \<and> (\<exists>r. fst (join_b decimal_env store_nocap ''u2'' ''m1'') = Inr r)
   \<and> map_of (matches store_text_cap) ''m1'' = Some match_text_cap
   \<and> truthy (JNum (ToNumber decimal_env (fld ''maxPlayers'' match_text_cap)))
   \<and> fst (join_b decimal_env store_text_cap ''u2'' ''m1'') = Inl MatchFull"
proof -
  note f = match_nocap_facts
  note g = match_text_cap_facts
  have nn: "\<not> is_number (fld ''maxPlayers'' match_nocap)"
    by (simp add: f is_number_def)
  have tr: "truthy (JNum (ToNumber decimal_env (fld ''maxPlayers'' match_text_cap)))"
    by (simp add: g decimal_string_2)
  from capacity_default [OF f(1), of "''u2''" profile_u2 decimal_env 8] nn f
  have "(\<exists>r. fst (join_m store_nocap ''u2'' ''m1'') = Inr r)
        \<and> fst (join_l decimal_env 8 store_nocap ''u2'' ''m1'') \<noteq> Inl MatchFull
        \<and> (\<exists>r. fst (join_b decimal_env store_nocap ''u2'' ''m1'') = Inr r)"
    by simp
  moreover from capacity_default [OF g(1), of "''u2''" profile_u2 decimal_env 8] tr g
  have "fst (join_b decimal_env store_text_cap ''u2'' ''m1'') = Inl MatchFull"
    by (simp add: decimal_string_2 num_ge_nat_2)
  ultimately show ?thesis using f g nn tr by simp
qed

text \<open>
  The claim as stated fails in the band revision: the stored \<^verbatim>\<open>maxPlayers\<close> is the text
  \<^verbatim>\<open>"2"\<close>, not a number, the record has two players, fewer than 4, and the join of
  \<^verbatim>\<open>u2\<close> is refused as full.
\<close>

theorem capacity_default_counterexample:
  "map_of (matches store_text_cap) ''m1'' = Some match_text_cap
   \<and> \<not> is_number (fld ''maxPlayers'' match_text_cap)
   \<and> length (players_of match_text_cap) = 2
   \<and> fst (join_b decimal_env store_text_cap ''u2'' ''m1'') = Inl MatchFull"
  by (simp add: store_text_cap_def match_text_cap_def fld_def players_of_def array_or_empty_def
      is_number_def join_b_def Let_def decimal_string_2 number_or_def num_ge_nat_2)

section \<open>Joining a match\<close>

lemma map_of_after_update:
  "map_of c i = Some d \<Longrightarrow> map_of (apply_write now c (WUpdate i p)) i = Some (apply_patch now p d)"
  by (simp add: map_of_map_entry)

lemma join_l_reply:
  assumes pr: "profile_with_level s uid = Some pr" and m: "map_of (matches s) mid = Some m"
  shows "fst (join_l env now s uid mid) =
           (if fld ''status'' m \<noteq> JStr ''open'' then Inl MatchClosed
            else if JStr uid \<in> set (players_of m) then Inl AlreadyJoined
            else if num_ge (js_of_nat (length (players_of m))) (maxPlayers_or_4 m) then Inl MatchFull
            else if \<not> lvlOk env (fld ''level'' pr) m then Inl LevelMismatch
            else Inr (200, message ''Te uniste al partido''))"
  by (simp add: join_l_def pr m Let_def players_of_def map_of_after_update [OF m]
      del: apply_write.simps)

lemma join_l_error_no_write: "fst (join_l env now s uid mid) = Inl e \<Longrightarrow> snd (join_l env now s uid mid) = []"
proof (cases "profile_with_level s uid")
  case None
  then show ?thesis by (simp add: join_l_def)
next
  case (Some pr)
  assume e: "fst (join_l env now s uid mid) = Inl e"
  show ?thesis
  proof (cases "map_of (matches s) mid")
    case None
    with Some show ?thesis by (simp add: join_l_def)
  next
    case (Some m)
    with \<open>profile_with_level s uid = Some pr\<close> e show ?thesis
      by (simp add: join_l_def Let_def map_of_after_update [OF Some] split: if_splits
          del: apply_write.simps)
  qed
qed

text \<open>
  C3, as the code has it. The level-aware join checks the joiner's profile first: without
  a declared level the answer is the validation error, whether the match exists or not.
  Then come, in this order, the existence of the match (not found), the status (closed),
  the membership (already joined), the capacity (full) and the level (mismatch); the first
  check that fails decides the error, and an error writes nothing.
\<close>

theorem join_l_order:
  "(profile_with_level s uid = None \<longrightarrow>
      fst (join_l env now s uid mid) = Inl ProfileIncomplete)
   \<and> (profile_with_level s uid = Some pr \<and> map_of (matches s) mid = None \<longrightarrow>
      fst (join_l env now s uid mid) = Inl MatchNotFound)
   \<and> (profile_with_level s uid = Some pr \<and> map_of (matches s) mid = Some m \<longrightarrow>
      fst (join_l env now s uid mid) =
        (if fld ''status'' m \<noteq> JStr ''open'' then Inl MatchClosed
         else if JStr uid \<in> set (players_of m) then Inl AlreadyJoined
         else if num_ge (js_of_nat (length (players_of m))) (maxPlayers_or_4 m) then Inl MatchFull
         else if \<not> lvlOk env (fld ''level'' pr) m then Inl LevelMismatch
         else Inr (200, message ''Te uniste al partido'')))
   \<and> (\<forall>e. fst (join_l env now s uid mid) = Inl e \<longrightarrow> snd (join_l env now s uid mid) = [])
   \<and> err_class_of ProfileIncomplete = ValidationError \<and> http_status ProfileIncomplete = 400
   \<and> err_class_of MatchNotFound = NotFound \<and> http_status MatchNotFound = 404"
proof (intro conjI impI allI)
  assume "profile_with_level s uid = None"
  then show "fst (join_l env now s uid mid) = Inl ProfileIncomplete"
    by (simp add: join_l_def)
next
  assume "profile_with_level s uid = Some pr \<and> map_of (matches s) mid = None"
  then show "fst (join_l env now s uid mid) = Inl MatchNotFound"
    by (simp add: join_l_def)
next
  assume "profile_with_level s uid = Some pr \<and> map_of (matches s) mid = Some m"
  then show "fst (join_l env now s uid mid) =
        (if fld ''status'' m \<noteq> JStr ''open'' then Inl MatchClosed
         else if JStr uid \<in> set (players_of m) then Inl AlreadyJoined
         else if num_ge (js_of_nat (length (players_of m))) (maxPlayers_or_4 m) then Inl MatchFull
         else if \<not> lvlOk env (fld ''level'' pr) m then Inl LevelMismatch
         else Inr (200, message ''Te uniste al partido''))"
    using join_l_reply by blast
next
  fix e assume "fst (join_l env now s uid mid) = Inl e"
  then show "snd (join_l env now s uid mid) = []" by (rule join_l_error_no_write)
qed simp_all

lemma store_l1_facts:
  "map_of (matches store_l1) ''m1'' = Some match_l1"
  "map_of (matches store_l1) ''nope'' = None"
  "profile_with_level store_l1 ''u2'' = Some profile_u2"
  "profile_with_level store_l1 ''u9'' = None"
  by (simp_all add: store_l1_def profile_with_level_def profile_u2_def fld_def)

lemma match_l1_facts:
  "fld ''status'' match_l1 = JStr ''open''"
  "players_of match_l1 = [JStr ''u1'']"
  "fld ''players'' match_l1 = JArr [JStr ''u1'']"
  "fld ''maxPlayers'' match_l1 = JNum (Fin 2)"
  "maxPlayers_or_4 match_l1 = Fin 2"
  "fld ''levelMin'' match_l1 = JNum (Fin (7 / 2))"
  "fld ''levelMax'' match_l1 = JNum (Fin (9 / 2))"
  by (simp_all add: match_l1_def fld_def players_of_def array_or_empty_def maxPlayers_or_4_def)

lemma level_u2: "fld ''level'' profile_u2 = JNum (Fin 4)"
  by (simp add: profile_u2_def fld_def)

lemma lvlOk_u2: "lvlOk decimal_env (fld ''level'' profile_u2) match_l1"
  by (simp add: lvlOk_def match_l1_facts level_u2 ToNumber_def to_primitive_def
      num_ge_def num_le_def is_nan_def)

text \<open>On the store with the 1v1 record of \<^verbatim>\<open>u1\<close>: the caller \<^verbatim>\<open>u9\<close> has no profile,
  \<^verbatim>\<open>u2\<close> asks for a match that does not exist, and \<^verbatim>\<open>u2\<close> joins the record.\<close>

theorem join_l_order_witness:
  "profile_with_level store_l1 ''u9'' = None
   \<and> fst (join_l decimal_env 8 store_l1 ''u9'' ''m1'') = Inl ProfileIncomplete
   \<and> profile_with_level store_l1 ''u2'' = Some profile_u2
   \<and> map_of (matches store_l1) ''nope'' = None
   \<and> fst (join_l decimal_env 8 store_l1 ''u2'' ''nope'') = Inl MatchNotFound
   \<and> map_of (matches store_l1) ''m1'' = Some match_l1
   \<and> fst (join_l decimal_env 8 store_l1 ''u2'' ''m1'') = Inr (200, message ''Te uniste al partido'')
   \<and> snd (join_l decimal_env 8 store_l1 ''u9'' ''m1'') = []"
proof -
  note f = store_l1_facts
  from join_l_order [where s = store_l1 and uid = "''u9''" and env = decimal_env and now = 8
      and mid = "''m1''" and pr = profile_u2 and m = match_l1] f
  have a: "fst (join_l decimal_env 8 store_l1 ''u9'' ''m1'') = Inl ProfileIncomplete"
    by blast
  from join_l_order [where s = store_l1 and uid = "''u9''" and env = decimal_env and now = 8
      and mid = "''m1''" and pr = profile_u2 and m = match_l1] a
  have d: "snd (join_l decimal_env 8 store_l1 ''u9'' ''m1'') = []"
    by blast
  from join_l_order [where s = store_l1 and uid = "''u2''" and env = decimal_env and now = 8
      and mid = "''nope''" and pr = profile_u2 and m = match_l1] f
  have b: "fst (join_l decimal_env 8 store_l1 ''u2'' ''nope'') = Inl MatchNotFound"
    by blast
  from join_l_order [where s = store_l1 and uid = "''u2''" and env = decimal_env and now = 8
      and mid = "''m1''" and pr = profile_u2 and m = match_l1] f
  have c: "fst (join_l decimal_env 8 store_l1 ''u2'' ''m1'') = Inr (200, message ''Te uniste al partido'')"
    by (simp add: match_l1_facts lvlOk_u2 num_ge_nat_2)
  from a b c d f show ?thesis by simp
qed

text \<open>
  The claim as stated fails: the match \<^verbatim>\<open>nope\<close> does not exist, the caller \<^verbatim>\<open>u9\<close> has no
  profile, and the answer is the validation error of the profile check, not the not-found
  error.
\<close>

theorem join_l_order_counterexample:
  "map_of (matches store_l1) ''nope'' = None
   \<and> profile_with_level store_l1 ''u9'' = None
   \<and> fst (join_l decimal_env 8 store_l1 ''u9'' ''nope'') = Inl ProfileIncomplete
   \<and> err_class_of ProfileIncomplete = ValidationError
   \<and> http_status ProfileIncomplete = 400"
  by (simp add: store_l1_facts join_l_def)

lemma array_union_new:
  "x \<notin> set (array_or_empty old) \<Longrightarrow>
   apply_transform now old (ArrayUnion x) = JArr (array_or_empty old @ [x])"
  by (cases old) (simp_all add: array_or_empty_def)

lemma join_b_success:
  assumes ok: "fst (join_b env s uid mid) = Inr r"
  shows "\<exists>m. map_of (matches s) mid = Some m \<and> JStr uid \<notin> set (players_of m) \<and>
             snd (join_b env s uid mid) =
               [WUpdate mid
                  [(''players'', ArrayUnion (JStr uid)),
                   (''status'', SetTo (JStr
                      (if num_ge (js_of_nat (length (players_of m) + 1))
                                 (number_or (ToNumber env (fld ''maxPlayers'' m)) (Fin 4))
                       then ''full'' else ''open''))),
                   (''updatedAt'', ServerTimestamp)]]"
proof (cases "map_of (matches s) mid")
  case None
  with ok show ?thesis by (simp add: join_b_def)
next
  case (Some m)
  with ok show ?thesis
    by (simp add: join_b_def Let_def players_of_def split: if_splits)
qed

lemma join_m_success:
  assumes ok: "fst (join_m s uid mid) = Inr r"
  shows "\<exists>m. map_of (matches s) mid = Some m \<and> JStr uid \<notin> set (players_of m) \<and>
             \<not> num_ge (js_of_nat (length (players_of m))) (maxPlayers_or_4 m) \<and>
             snd (join_m s uid mid) = [WUpdate mid [(''players'', ArrayUnion (JStr uid))]]"
proof (cases "map_of (matches s) mid")
  case None
  with ok show ?thesis by (simp add: join_m_def)
next
  case (Some m)
  with ok show ?thesis
    by (simp add: join_m_def Let_def players_of_def split: if_splits)
qed

lemma join_l_success:
  assumes ok: "fst (join_l env now s uid mid) = Inr r"
  shows "\<exists>m. map_of (matches s) mid = Some m \<and> JStr uid \<notin> set (players_of m) \<and>
             fld ''status'' m = JStr ''open'' \<and>
             \<not> num_ge (js_of_nat (length (players_of m))) (maxPlayers_or_4 m) \<and>
             snd (join_l env now s uid mid) =
               WUpdate mid [(''players'', ArrayUnion (JStr uid))] #
               (if num_ge (js_of_nat (length (players_of m) + 1))
                          (ToNumber env (fld ''maxPlayers'' m))
                then [WUpdate mid [(''status'', SetTo (JStr ''full''))]] else [])"
proof (cases "profile_with_level s uid")
  case None
  with ok show ?thesis by (simp add: join_l_def)
next
  case pr: (Some pr)
  show ?thesis
  proof (cases "map_of (matches s) mid")
    case None
    with ok pr show ?thesis by (simp add: join_l_def)
  next
    case (Some m)
    from ok pr Some have c: "fld ''status'' m = JStr ''open''" "JStr uid \<notin> set (players_of m)"
      "\<not> num_ge (js_of_nat (length (players_of m))) (maxPlayers_or_4 m)"
      by (simp_all add: join_l_reply [OF pr Some] split: if_splits)
    have after: "map_of (apply_write now (matches s) (WUpdate mid [(''players'', ArrayUnion (JStr uid))])) mid
        = Some (apply_patch now [(''players'', ArrayUnion (JStr uid))] m)"
      by (rule map_of_after_update [OF Some])
    have pl: "fld ''players'' (apply_patch now [(''players'', ArrayUnion (JStr uid))] m) =
        JArr (players_of m @ [JStr uid])"
      using c(2) by (simp add: fld_apply_patch array_union_new players_of_def
          del: apply_transform.simps(3))
    have mx: "fld ''maxPlayers'' (apply_patch now [(''players'', ArrayUnion (JStr uid))] m) =
        fld ''maxPlayers'' m"
      by (simp add: fld_apply_patch)
    from ok pr Some c show ?thesis
      by (simp add: join_l_def Let_def after pl mx array_or_empty_def
          players_of_def [symmetric] lvlOk_def del: apply_write.simps split: if_splits)
  qed
qed

text \<open>
  C4, as the code has it. A join that succeeds adds the joiner to \<^verbatim>\<open>players\<close>. The band
  revision writes the players, the status derived from the new count, and the time of
  the update, in one update. The level-aware revision writes the players in one update,
  reads the record back, and writes the status \<^verbatim>\<open>"full"\<close> in a second update when the
  new count has reached \<^verbatim>\<open>maxPlayers\<close>; otherwise it writes no status. The middle revision
  writes the players and never the status.
\<close>

theorem join_writes:
  "(fst (join_b env s uid mid) = Inr r \<longrightarrow>
      (\<exists>m m' st. map_of (matches s) mid = Some m \<and>
         st = (if num_ge (js_of_nat (length (players_of m) + 1))
                         (number_or (ToNumber env (fld ''maxPlayers'' m)) (Fin 4))
               then ''full'' else ''open'') \<and>
         snd (join_b env s uid mid) =
           [WUpdate mid [(''players'', ArrayUnion (JStr uid)), (''status'', SetTo (JStr st)),
                         (''updatedAt'', ServerTimestamp)]] \<and>
         map_of (matches (commit now (snd (join_b env s uid mid)) s)) mid = Some m' \<and>
         fld ''players'' m' = JArr (players_of m @ [JStr uid]) \<and>
         fld ''status'' m' = JStr st))
   \<and> (fst (join_l env now s uid mid) = Inr r \<longrightarrow>
      (\<exists>m m' full. map_of (matches s) mid = Some m \<and>
         full = num_ge (js_of_nat (length (players_of m) + 1)) (ToNumber env (fld ''maxPlayers'' m)) \<and>
         snd (join_l env now s uid mid) =
           WUpdate mid [(''players'', ArrayUnion (JStr uid))] #
           (if full then [WUpdate mid [(''status'', SetTo (JStr ''full''))]] else []) \<and>
         map_of (matches (commit now (snd (join_l env now s uid mid)) s)) mid = Some m' \<and>
         fld ''players'' m' = JArr (players_of m @ [JStr uid]) \<and>
         fld ''status'' m' = JStr (if full then ''full'' else ''open'')))
   \<and> (fst (join_m s uid mid) = Inr r \<longrightarrow>
      (\<exists>m m'. map_of (matches s) mid = Some m \<and>
         snd (join_m s uid mid) = [WUpdate mid [(''players'', ArrayUnion (JStr uid))]] \<and>
         map_of (matches (commit now (snd (join_m s uid mid)) s)) mid = Some m' \<and>
         fld ''players'' m' = JArr (players_of m @ [JStr uid]) \<and>
         fld ''status'' m' = fld ''status'' m))"
proof (intro conjI impI)
  assume "fst (join_b env s uid mid) = Inr r"
  from join_b_success [OF this] obtain m where
    m: "map_of (matches s) mid = Some m" and nm: "JStr uid \<notin> set (players_of m)" and
    w: "snd (join_b env s uid mid) =
               [WUpdate mid
                  [(''players'', ArrayUnion (JStr uid)),
                   (''status'', SetTo (JStr
                      (if num_ge (js_of_nat (length (players_of m) + 1))
                                 (number_or (ToNumber env (fld ''maxPlayers'' m)) (Fin 4))
                       then ''full'' else ''open''))),
                   (''updatedAt'', ServerTimestamp)]]"
    by blast
  show "\<exists>m m' st. map_of (matches s) mid = Some m \<and>
         st = (if num_ge (js_of_nat (length (players_of m) + 1))
                         (number_or (ToNumber env (fld ''maxPlayers'' m)) (Fin 4))
               then ''full'' else ''open'') \<and>
         snd (join_b env s uid mid) =
           [WUpdate mid [(''players'', ArrayUnion (JStr uid)), (''status'', SetTo (JStr st)),
                         (''updatedAt'', ServerTimestamp)]] \<and>
         map_of (matches (commit now (snd (join_b env s uid mid)) s)) mid = Some m' \<and>
         fld ''players'' m' = JArr (players_of m @ [JStr uid]) \<and>
         fld ''status'' m' = JStr st"
    using m nm
    by (simp add: w matches_commit_single map_of_map_entry fld_apply_patch array_union_new
        players_of_def del: apply_transform.simps(3))
next
  assume "fst (join_l env now s uid mid) = Inr r"
  from join_l_success [OF this] obtain m where
    m: "map_of (matches s) mid = Some m" and nm: "JStr uid \<notin> set (players_of m)" and
    st: "fld ''status'' m = JStr ''open''" and
    w: "snd (join_l env now s uid mid) =
               WUpdate mid [(''players'', ArrayUnion (JStr uid))] #
               (if num_ge (js_of_nat (length (players_of m) + 1))
                          (ToNumber env (fld ''maxPlayers'' m))
                then [WUpdate mid [(''status'', SetTo (JStr ''full''))]] else [])"
    by blast
  show "\<exists>m m' full. map_of (matches s) mid = Some m \<and>
         full = num_ge (js_of_nat (length (players_of m) + 1)) (ToNumber env (fld ''maxPlayers'' m)) \<and>
         snd (join_l env now s uid mid) =
           WUpdate mid [(''players'', ArrayUnion (JStr uid))] #
           (if full then [WUpdate mid [(''status'', SetTo (JStr ''full''))]] else []) \<and>
         map_of (matches (commit now (snd (join_l env now s uid mid)) s)) mid = Some m' \<and>
         fld ''players'' m' = JArr (players_of m @ [JStr uid]) \<and>
         fld ''status'' m' = JStr (if full then ''full'' else ''open'')"
    using m nm st
    by (simp add: w commit_def map_of_map_entry fld_apply_patch array_union_new players_of_def
        del: apply_transform.simps(3))
next
  assume "fst (join_m s uid mid) = Inr r"
  from join_m_success [OF this] obtain m where
    m: "map_of (matches s) mid = Some m" and nm: "JStr uid \<notin> set (players_of m)" and
    w: "snd (join_m s uid mid) = [WUpdate mid [(''players'', ArrayUnion (JStr uid))]]"
    by blast
  show "\<exists>m m'. map_of (matches s) mid = Some m \<and>
         snd (join_m s uid mid) = [WUpdate mid [(''players'', ArrayUnion (JStr uid))]] \<and>
         map_of (matches (commit now (snd (join_m s uid mid)) s)) mid = Some m' \<and>
         fld ''players'' m' = JArr (players_of m @ [JStr uid]) \<and>
         fld ''status'' m' = fld ''status'' m"
    using m nm
    by (simp add: w matches_commit_single map_of_map_entry fld_apply_patch array_union_new
        players_of_def del: apply_transform.simps(3))
qed

lemma match_b1_facts:
  "map_of (matches store_b1) ''m1'' = Some match_b1"
  "players_of match_b1 = [JStr ''u1'', JStr ''u2'']"
  "fld ''players'' match_b1 = JArr [JStr ''u1'', JStr ''u2'']"
  "fld ''maxPlayers'' match_b1 = JNum (Fin 4)"
  "fld ''createdBy'' match_b1 = JStr ''u1''"
  "fld ''status'' match_b1 = JStr ''open''"
  by (simp_all add: store_b1_def match_b1_def fld_def players_of_def array_or_empty_def)

lemma join_b_u3: "fst (join_b decimal_env store_b1 ''u3'' ''m1'') = Inr (200, message ''Te uniste'')"
  by (simp add: join_b_def match_b1_facts Let_def array_or_empty_def ToNumber_def
      to_primitive_def number_or_def num_ge_nat_4)

lemma join_l_u2:
  "fst (join_l decimal_env 8 store_l1 ''u2'' ''m1'') = Inr (200, message ''Te uniste al partido'')"
  by (simp add: join_l_reply [OF store_l1_facts(3) store_l1_facts(1)] match_l1_facts lvlOk_u2
      num_ge_nat_2)

lemma join_m_u2: "fst (join_m store_nocap ''u2'' ''m1'') = Inr (200, message ''Te uniste al partido'')"
  by (simp add: join_m_def match_nocap_facts Let_def maxPlayers_or_4_def num_ge_nat_4
      match_nocap_facts(3) [unfolded players_of_def])

text \<open>\<^verbatim>\<open>u3\<close> joins the band record of two players (one update, status \<^verbatim>\<open>"open"\<close>);
  \<^verbatim>\<open>u2\<close> joins the 1v1 record of the level-aware revision (two updates); \<^verbatim>\<open>u2\<close> joins
  the record of the middle revision (one update, of the players).\<close>

theorem join_writes_witness:
  "(\<exists>r. fst (join_b decimal_env store_b1 ''u3'' ''m1'') = Inr r)
   \<and> snd (join_b decimal_env store_b1 ''u3'' ''m1'') =
       [WUpdate ''m1'' [(''players'', ArrayUnion (JStr ''u3'')), (''status'', SetTo (JStr ''open'')),
                        (''updatedAt'', ServerTimestamp)]]
   \<and> (\<exists>r. fst (join_l decimal_env 8 store_l1 ''u2'' ''m1'') = Inr r)
   \<and> snd (join_l decimal_env 8 store_l1 ''u2'' ''m1'') =
       [WUpdate ''m1'' [(''players'', ArrayUnion (JStr ''u2''))],
        WUpdate ''m1'' [(''status'', SetTo (JStr ''full''))]]
   \<and> (\<exists>r. fst (join_m store_nocap ''u2'' ''m1'') = Inr r)
   \<and> snd (join_m store_nocap ''u2'' ''m1'') = [WUpdate ''m1'' [(''players'', ArrayUnion (JStr ''u2''))]]"
proof -
  from join_writes [where env = decimal_env and s = store_b1 and uid = "''u3''" and mid = "''m1''"
      and now = 8 and r = "(200, message ''Te uniste'')"] join_b_u3
  have b: "snd (join_b decimal_env store_b1 ''u3'' ''m1'') =
       [WUpdate ''m1'' [(''players'', ArrayUnion (JStr ''u3'')), (''status'', SetTo (JStr ''open'')),
                        (''updatedAt'', ServerTimestamp)]]"
    by (auto simp: match_b1_facts ToNumber_def to_primitive_def number_or_def num_ge_nat_4)
  from join_writes [where env = decimal_env and s = store_l1 and uid = "''u2''" and mid = "''m1''"
      and now = 8 and r = "(200, message ''Te uniste al partido'')"] join_l_u2
  have l: "snd (join_l decimal_env 8 store_l1 ''u2'' ''m1'') =
       [WUpdate ''m1'' [(''players'', ArrayUnion (JStr ''u2''))],
        WUpdate ''m1'' [(''status'', SetTo (JStr ''full''))]]"
    by (auto simp: store_l1_facts match_l1_facts ToNumber_def to_primitive_def num_ge_nat_2)
  from join_writes [where s = store_nocap and uid = "''u2''" and mid = "''m1''"
      and now = 8 and r = "(200, message ''Te uniste al partido'')"] join_m_u2
  have m: "snd (join_m store_nocap ''u2'' ''m1'') = [WUpdate ''m1'' [(''players'', ArrayUnion (JStr ''u2''))]]"
    by blast
  from b l m join_b_u3 join_l_u2 join_m_u2 show ?thesis by simp
qed

text \<open>
  The claim as stated fails in the level-aware revision: the join of \<^verbatim>\<open>u2\<close> issues two
  updates, and after the first the record has two players, \<^verbatim>\<open>maxPlayers\<close> 2 and still
  the status \<^verbatim>\<open>"open"\<close>.
\<close>

theorem join_writes_counterexample:
  "fst (join_l decimal_env 8 store_l1 ''u2'' ''m1'') = Inr (200, message ''Te uniste al partido'')
   \<and> snd (join_l decimal_env 8 store_l1 ''u2'' ''m1'') =
       [WUpdate ''m1'' [(''players'', ArrayUnion (JStr ''u2''))],
        WUpdate ''m1'' [(''status'', SetTo (JStr ''full''))]]
   \<and> map_option players_of
        (map_of (apply_write 8 (matches store_l1) (WUpdate ''m1'' [(''players'', ArrayUnion (JStr ''u2''))]))
           ''m1'') = Some [JStr ''u1'', JStr ''u2'']
   \<and> map_option (fld ''maxPlayers'')
        (map_of (apply_write 8 (matches store_l1) (WUpdate ''m1'' [(''players'', ArrayUnion (JStr ''u2''))]))
           ''m1'') = Some (JNum (Fin 2))
   \<and> map_option (fld ''status'')
        (map_of (apply_write 8 (matches store_l1) (WUpdate ''m1'' [(''players'', ArrayUnion (JStr ''u2''))]))
           ''m1'') = Some (JStr ''open'')"
proof -
  have after: "map_of (apply_write 8 (matches store_l1)
        (WUpdate ''m1'' [(''players'', ArrayUnion (JStr ''u2''))])) ''m1''
      = Some (apply_patch 8 [(''players'', ArrayUnion (JStr ''u2''))] match_l1)"
    by (rule map_of_after_update [OF store_l1_facts(1)])
  have pl: "fld ''players'' (apply_patch 8 [(''players'', ArrayUnion (JStr ''u2''))] match_l1)
      = JArr [JStr ''u1'', JStr ''u2'']"
    by (simp add: fld_apply_patch match_l1_facts)
  have mx: "fld ''maxPlayers'' (apply_patch 8 [(''players'', ArrayUnion (JStr ''u2''))] match_l1)
      = JNum (Fin 2)"
    by (simp add: fld_apply_patch match_l1_facts)
  have st: "fld ''status'' (apply_patch 8 [(''players'', ArrayUnion (JStr ''u2''))] match_l1)
      = JStr ''open''"
    by (simp add: fld_apply_patch match_l1_facts)
  have w: "snd (join_l decimal_env 8 store_l1 ''u2'' ''m1'') =
       [WUpdate ''m1'' [(''players'', ArrayUnion (JStr ''u2''))],
        WUpdate ''m1'' [(''status'', SetTo (JStr ''full''))]]"
    by (simp add: join_l_def store_l1_facts match_l1_facts Let_def lvlOk_u2 after pl mx
        array_or_empty_def num_ge_nat_2 ToNumber_def to_primitive_def
        match_l1_facts(2) [unfolded players_of_def] del: apply_write.simps)
  show ?thesis
    by (simp add: join_l_u2 w after pl mx st players_of_def array_or_empty_def
        del: apply_write.simps)
qed

section \<open>Creating a match\<close>

lemma get_prop_or_else: "get_prop k (or_else b (JObj [])) = get_prop k b"
  by (cases b) (simp_all add: or_else_def get_prop_def fld_def)

lemma map_of_new_doc:
  "map_of (map (\<lambda>kt. (fst kt, f (snd kt))) p) k = map_option f (map_of p k)"
  by (induction p) auto

lemma fld_new_doc:
  "fld k (map (\<lambda>kt. (fst kt, apply_transform now JUndef (snd kt))) p) =
     (case map_of p k of None \<Rightarrow> JUndef | Some t \<Rightarrow> apply_transform now JUndef t)"
  by (simp add: fld_def map_of_new_doc split: option.split)

lemma map_of_append_fresh: "k \<notin> set (map fst c) \<Longrightarrow> map_of (c @ [(k, d)]) k = Some d"
  by (induction c) auto

text \<open>What a creation that succeeds wrote and answered.\<close>

lemma add_and_return_ok:
  assumes "fst (add_and_return now nid c p) = Inr r"
  shows "snd (add_and_return now nid c p) = [WAdd nid p]
         \<and> map_of (apply_write now c (WAdd nid p)) nid =
             Some (map (\<lambda>kt. (fst kt, apply_transform now JUndef (snd kt))) p)
         \<and> r = (201, JObj (with_id (nid, map (\<lambda>kt. (fst kt, apply_transform now JUndef (snd kt))) p)))"
proof -
  from assms have st: "storable_patch p" and fresh: "nid \<notin> set (map fst c)"
    by (auto simp: add_and_return_def split: if_splits)
  have look: "map_of (apply_write now c (WAdd nid p)) nid =
      Some (map (\<lambda>kt. (fst kt, apply_transform now JUndef (snd kt))) p)"
    unfolding apply_write.simps by (rule map_of_append_fresh [OF fresh])
  from assms st fresh show ?thesis
    by (simp add: add_and_return_def look del: apply_write.simps)
qed

lemma finite_or_undef: "finite_or env JUndef d = d"
  by (simp add: finite_or_def ToNumber_def to_primitive_def isFinite_def)

lemma lvlMin_of_default:
  "lvlMin_of env JUndef (JNum l) = math_max (Fin 1) (num_sub l (Fin (1 / 2)))"
  by (simp add: lvlMin_of_def finite_or_undef minus_half_def ToNumber_def to_primitive_def)

lemma lvlMax_of_default:
  "lvlMax_of env JUndef (JNum l) = math_min (Fin 7) (num_add l (Fin (1 / 2)))"
  by (simp add: lvlMax_of_def finite_or_undef plus_half_def ToNumber_def to_primitive_def)

lemma map_of_payload_l:
  "map_of (payload_l env uid pr b) ''levelMin'' =
     Some (SetTo (JNum (lvlMin_of env (get_prop ''levelMin'' b) (fld ''level'' pr))))"
  "map_of (payload_l env uid pr b) ''levelMax'' =
     Some (SetTo (JNum (lvlMax_of env (get_prop ''levelMax'' b) (fld ''level'' pr))))"
  "map_of (payload_l env uid pr b) ''players'' = Some (SetTo (JArr [JStr uid]))"
  "map_of (payload_l env uid pr b) ''status'' = Some (SetTo (JStr ''open''))"
  "map_of (payload_l env uid pr b) ''maxPlayers'' =
     Some (SetTo (JNum (if get_prop ''mode'' b = JStr ''1v1'' then Fin 2 else Fin 4)))"
  "map_of (payload_l env uid pr b) ''id'' = None"
  by (simp_all add: payload_l_def Let_def)

lemma create_l_persisted:
  assumes pr: "profile_with_level s uid = Some pr"
    and ok: "fst (create_l env now nid s uid body) = Inr r"
  shows "\<exists>d. map_of (matches (commit now (snd (create_l env now nid s uid body)) s)) nid = Some d
           \<and> r = (201, JObj (with_id (nid, d)))
           \<and> d = map (\<lambda>kt. (fst kt, apply_transform now JUndef (snd kt)))
                     (payload_l env uid pr (or_else body (JObj [])))
           \<and> get_prop ''mode'' body \<in> {JStr ''1v1'', JStr ''2v2''}"
proof -
  let ?b = "or_else body (JObj [])"
  from ok pr have mode: "get_prop ''mode'' body \<in> {JStr ''1v1'', JStr ''2v2''}"
    and c: "create_l env now nid s uid body = add_and_return now nid (matches s) (payload_l env uid pr ?b)"
    by (auto simp: create_l_def Let_def get_prop_or_else split: if_splits)
  from ok c have "fst (add_and_return now nid (matches s) (payload_l env uid pr ?b)) = Inr r"
    by simp
  from add_and_return_ok [OF this] mode show ?thesis
    by (simp add: c matches_commit_single del: apply_write.simps)
qed


lemma store_profiles_facts:
  "profile_with_level store_profiles ''u1'' = Some profile_u1"
  "fld ''level'' profile_u1 = JNum (Fin 4)"
  "matches store_profiles = []"
  by (simp_all add: store_profiles_def no_matches_def profile_with_level_def profile_u1_def fld_def)

lemma body_facts:
  "get_prop ''mode'' body_1v1 = JStr ''1v1''"
  "get_prop ''levelMin'' body_1v1 = JUndef"
  "get_prop ''levelMax'' body_1v1 = JUndef"
  "get_prop ''mode'' body_no_mode = JUndef"
  "get_prop ''mode'' body_reversed = JStr ''2v2''"
  "get_prop ''levelMin'' body_reversed = JNum (Fin 5)"
  "get_prop ''levelMax'' body_reversed = JNum (Fin 3)"
  by (simp_all add: body_1v1_def body_no_mode_def body_reversed_def get_prop_def fld_def)

lemma storable_payload_1v1: "storable_patch (payload_l decimal_env ''u1'' profile_u1 body_1v1)"
  by (simp add: storable_patch_def payload_l_def Let_def body_1v1_def get_prop_def fld_def
      or_else_def profile_u1_def)

lemma create_l_1v1_ok: "\<exists>r. fst (create_l decimal_env 5 ''m1'' store_profiles ''u1'' body_1v1) = Inr r"
proof -
  have b: "or_else body_1v1 (JObj []) = body_1v1"
    by (simp add: or_else_def body_1v1_def)
  have ngt: "\<not> num_gt (lvlMin_of decimal_env JUndef (JNum (Fin 4))) (lvlMax_of decimal_env JUndef (JNum (Fin 4)))"
    by (simp add: lvlMin_of_default lvlMax_of_default math_max_def math_min_def num_sub_def
        num_gt_def is_nan_def)
  show ?thesis
    using ngt storable_payload_1v1
    by (simp add: create_l_def store_profiles_facts Let_def b body_facts add_and_return_def)
qed


lemma map_of_docData_b:
  "map_of (docData_b env uid p t) ''players'' = Some (SetTo (JArr [JStr uid]))"
  "map_of (docData_b env uid p t) ''status'' = Some (SetTo (JStr ''open''))"
  "map_of (docData_b env uid p t) ''maxPlayers'' = Some (SetTo (JNum (Fin 4)))"
  "map_of (docData_b env uid p t) ''id'' = None"
  by (simp_all add: docData_b_def Let_def)

lemma map_of_payload_m:
  "map_of (payload_m uid d) ''players'' =
     Some (SetTo (case fld ''players'' d of
                    JArr ps \<Rightarrow> if length ps \<noteq> 0 then JArr ps else JArr [JStr uid]
                  | _ \<Rightarrow> JArr [JStr uid]))"
  "map_of (payload_m uid d) ''status'' = Some (SetTo (or_else (fld ''status'' d) (JStr ''open'')))"
  "map_of (payload_m uid d) ''maxPlayers'' = map_option SetTo (map_of d ''maxPlayers'')"
  "map_of (payload_m uid d) ''id'' = map_option SetTo (map_of d ''id'')"
  by (simp_all add: payload_m_def Let_def update_conv' map_of_new_doc)

lemma fld_with_id_id:
  "fld ''id'' (with_id (i, d)) = (case map_of d ''id'' of None \<Rightarrow> JStr i | Some v \<Rightarrow> v)"
  by (simp add: with_id_def fld_def split: option.split)


lemma create_b_persisted:
  assumes ok: "fst (create_b env now nid s uid body) = Inr r"
  shows "\<exists>t d. map_of (matches (commit now (snd (create_b env now nid s uid body)) s)) nid = Some d
           \<and> r = (201, JObj (with_id (nid, d)))
           \<and> d = map (\<lambda>kt. (fst kt, apply_transform now JUndef (snd kt)))
                     (docData_b env uid (or_else body (JObj [])) t)"
proof -
  let ?p = "or_else body (JObj [])"
  from ok obtain t where
    c: "create_b env now nid s uid body = add_and_return now nid (matches s) (docData_b env uid ?p t)"
    by (auto simp: create_b_def Let_def split: jsval.splits)
  from ok c have "fst (add_and_return now nid (matches s) (docData_b env uid ?p t)) = Inr r"
    by simp
  from add_and_return_ok [OF this] show ?thesis
    by (auto simp: c matches_commit_single simp del: apply_write.simps)
qed

lemma create_m_persisted:
  assumes ok: "fst (create_m now nid s uid body) = Inr r"
  shows "\<exists>b d. or_else body (JObj []) = JObj b
           \<and> map_of (matches (commit now (snd (create_m now nid s uid body)) s)) nid = Some d
           \<and> r = (201, JObj (with_id (nid, d)))
           \<and> d = map (\<lambda>kt. (fst kt, apply_transform now JUndef (snd kt))) (payload_m uid b)"
proof -
  from ok obtain b where b: "or_else body (JObj []) = JObj b"
    and c: "create_m now nid s uid body = add_and_return now nid (matches s) (payload_m uid b)"
    by (auto simp: create_m_def split: jsval.splits)
  from ok c have "fst (add_and_return now nid (matches s) (payload_m uid b)) = Inr r"
    by simp
  from add_and_return_ok [OF this] b show ?thesis
    by (simp add: c matches_commit_single del: apply_write.simps)
qed

lemma get_prop_body: "or_else body (JObj []) = JObj b \<Longrightarrow> get_prop k body = fld k b"
  using get_prop_or_else [of k body] by (simp add: get_prop_def)

text \<open>
  C5, as the code has it. In the band and the level-aware revision a creation that
  succeeds persists a record whose \<^verbatim>\<open>players\<close> is the list of the creator alone, whose
  status is \<^verbatim>\<open>"open"\<close> and whose \<^verbatim>\<open>maxPlayers\<close> is 4 (band revision) or follows the mode
  (2 for \<^verbatim>\<open>"1v1"\<close>, 4 for \<^verbatim>\<open>"2v2"\<close>), whatever else the body holds; the answer is status
  201 with the record and the generated identifier. In the middle revision the record is
  the body: \<^verbatim>\<open>players\<close> is the body's when that is a non-empty array and the creator alone
  otherwise, the status is the body's when that is truthy and \<^verbatim>\<open>"open"\<close> otherwise,
  \<^verbatim>\<open>maxPlayers\<close> is whatever the body holds, and a field \<^verbatim>\<open>id\<close> of the body replaces the
  generated identifier in the answer.
\<close>

theorem create_persists:
  "(fst (create_b env now nid s uid body) = Inr r \<longrightarrow>
      (\<exists>d. map_of (matches (commit now (snd (create_b env now nid s uid body)) s)) nid = Some d \<and>
           r = (201, JObj (with_id (nid, d))) \<and> fld ''id'' (with_id (nid, d)) = JStr nid \<and>
           fld ''players'' d = JArr [JStr uid] \<and> fld ''status'' d = JStr ''open'' \<and>
           fld ''maxPlayers'' d = JNum (Fin 4)))
   \<and> (fst (create_l env now nid s uid body) = Inr r \<longrightarrow>
      (\<exists>d. map_of (matches (commit now (snd (create_l env now nid s uid body)) s)) nid = Some d \<and>
           r = (201, JObj (with_id (nid, d))) \<and> fld ''id'' (with_id (nid, d)) = JStr nid \<and>
           fld ''players'' d = JArr [JStr uid] \<and> fld ''status'' d = JStr ''open'' \<and>
           get_prop ''mode'' body \<in> {JStr ''1v1'', JStr ''2v2''} \<and>
           fld ''maxPlayers'' d = JNum (if get_prop ''mode'' body = JStr ''1v1'' then Fin 2 else Fin 4)))
   \<and> (fst (create_m now nid s uid body) = Inr r \<longrightarrow>
      (\<exists>d. map_of (matches (commit now (snd (create_m now nid s uid body)) s)) nid = Some d \<and>
           r = (201, JObj (with_id (nid, d))) \<and>
           fld ''id'' (with_id (nid, d)) =
             (if get_prop ''id'' body = JUndef then JStr nid else get_prop ''id'' body) \<and>
           fld ''players'' d =
             (case get_prop ''players'' body of
                JArr ps \<Rightarrow> if ps = [] then JArr [JStr uid] else JArr ps
              | _ \<Rightarrow> JArr [JStr uid]) \<and>
           fld ''status'' d = or_else (get_prop ''status'' body) (JStr ''open'') \<and>
           fld ''maxPlayers'' d = get_prop ''maxPlayers'' body))"
proof (intro conjI impI)
  assume "fst (create_b env now nid s uid body) = Inr r"
  from create_b_persisted [OF this] obtain t d where
    d: "map_of (matches (commit now (snd (create_b env now nid s uid body)) s)) nid = Some d"
    and r: "r = (201, JObj (with_id (nid, d)))"
    and dd: "d = map (\<lambda>kt. (fst kt, apply_transform now JUndef (snd kt)))
                     (docData_b env uid (or_else body (JObj [])) t)"
    by blast
  have "fld ''players'' d = JArr [JStr uid]" "fld ''status'' d = JStr ''open''"
    "fld ''maxPlayers'' d = JNum (Fin 4)" "map_of d ''id'' = None"
    by (simp_all only: dd fld_new_doc map_of_new_doc map_of_docData_b option.case
        apply_transform.simps option.map)
  with d r show "\<exists>d. map_of (matches (commit now (snd (create_b env now nid s uid body)) s)) nid = Some d \<and>
           r = (201, JObj (with_id (nid, d))) \<and> fld ''id'' (with_id (nid, d)) = JStr nid \<and>
           fld ''players'' d = JArr [JStr uid] \<and> fld ''status'' d = JStr ''open'' \<and>
           fld ''maxPlayers'' d = JNum (Fin 4)"
    by (simp add: fld_with_id_id)
next
  assume ok: "fst (create_l env now nid s uid body) = Inr r"
  then obtain pr where pr: "profile_with_level s uid = Some pr"
    by (cases "profile_with_level s uid") (simp_all add: create_l_def)
  from create_l_persisted [OF pr ok] obtain d where
    d: "map_of (matches (commit now (snd (create_l env now nid s uid body)) s)) nid = Some d"
    and r: "r = (201, JObj (with_id (nid, d)))"
    and dd: "d = map (\<lambda>kt. (fst kt, apply_transform now JUndef (snd kt)))
                     (payload_l env uid pr (or_else body (JObj [])))"
    and mode: "get_prop ''mode'' body \<in> {JStr ''1v1'', JStr ''2v2''}"
    by blast
  have "fld ''players'' d = JArr [JStr uid]" "fld ''status'' d = JStr ''open''"
    "fld ''maxPlayers'' d = JNum (if get_prop ''mode'' body = JStr ''1v1'' then Fin 2 else Fin 4)"
    "map_of d ''id'' = None"
    by (simp_all only: dd fld_new_doc map_of_new_doc map_of_payload_l option.case
        apply_transform.simps option.map get_prop_or_else)
  with d r mode show "\<exists>d. map_of (matches (commit now (snd (create_l env now nid s uid body)) s)) nid = Some d \<and>
           r = (201, JObj (with_id (nid, d))) \<and> fld ''id'' (with_id (nid, d)) = JStr nid \<and>
           fld ''players'' d = JArr [JStr uid] \<and> fld ''status'' d = JStr ''open'' \<and>
           get_prop ''mode'' body \<in> {JStr ''1v1'', JStr ''2v2''} \<and>
           fld ''maxPlayers'' d = JNum (if get_prop ''mode'' body = JStr ''1v1'' then Fin 2 else Fin 4)"
    by (simp add: fld_with_id_id)
next
  assume "fst (create_m now nid s uid body) = Inr r"
  from create_m_persisted [OF this] obtain b d where
    b: "or_else body (JObj []) = JObj b"
    and d: "map_of (matches (commit now (snd (create_m now nid s uid body)) s)) nid = Some d"
    and r: "r = (201, JObj (with_id (nid, d)))"
    and dd: "d = map (\<lambda>kt. (fst kt, apply_transform now JUndef (snd kt))) (payload_m uid b)"
    by blast
  note g = get_prop_body [OF b]
  have pl: "fld ''players'' d =
             (case fld ''players'' b of
                JArr ps \<Rightarrow> if ps = [] then JArr [JStr uid] else JArr ps
              | _ \<Rightarrow> JArr [JStr uid])"
    by (simp add: dd fld_new_doc map_of_payload_m split: jsval.split)
  have st: "fld ''status'' d = or_else (fld ''status'' b) (JStr ''open'')"
    by (simp add: dd fld_new_doc map_of_payload_m)
  have mx: "fld ''maxPlayers'' d = fld ''maxPlayers'' b"
    by (cases "map_of b ''maxPlayers''")
      (simp_all add: dd fld_new_doc map_of_payload_m fld_def [of "''maxPlayers''" b])
  have idf: "map_of d ''id'' = map_of b ''id''"
    by (simp add: dd map_of_new_doc map_of_payload_m option.map_comp comp_def option.map_ident)
  have storable: "storable_patch (payload_m uid b)"
    using \<open>fst (create_m now nid s uid body) = Inr r\<close> b
    by (simp add: create_m_def add_and_return_def split: if_splits)
  have "map_of b ''id'' \<noteq> Some JUndef"
  proof
    assume u: "map_of b ''id'' = Some JUndef"
    then have "(''id'', SetTo JUndef) \<in> set (payload_m uid b)"
      using map_of_payload_m(4) [of uid b] by (simp add: map_of_SomeD)
    with storable show False
      by (auto simp: storable_patch_def list_all_iff)
  qed
  then have idv: "fld ''id'' (with_id (nid, d)) =
             (if fld ''id'' b = JUndef then JStr nid else fld ''id'' b)"
    by (cases "map_of b ''id''")
      (simp_all add: fld_with_id_id idf fld_def [of "''id''" b])
  from d r pl st mx idv show "\<exists>d. map_of (matches (commit now (snd (create_m now nid s uid body)) s)) nid = Some d \<and>
           r = (201, JObj (with_id (nid, d))) \<and>
           fld ''id'' (with_id (nid, d)) =
             (if get_prop ''id'' body = JUndef then JStr nid else get_prop ''id'' body) \<and>
           fld ''players'' d =
             (case get_prop ''players'' body of
                JArr ps \<Rightarrow> if ps = [] then JArr [JStr uid] else JArr ps
              | _ \<Rightarrow> JArr [JStr uid]) \<and>
           fld ''status'' d = or_else (get_prop ''status'' body) (JStr ''open'') \<and>
           fld ''maxPlayers'' d = get_prop ''maxPlayers'' body"
    by (simp add: g)
qed
lemma create_b_own_fields_ok:
  "\<exists>r. fst (create_b decimal_env 5 ''m1'' store_profiles ''u1'' body_own_fields) = Inr r"
  by (simp add: create_b_def Let_def or_else_def get_prop_def fld_def body_own_fields_def
      add_and_return_def storable_patch_def docData_b_def rankOf_def property_key_def
      BAND_RANK_def js_of_nat_def store_profiles_facts)

lemma create_m_empty_ok: "\<exists>r. fst (create_m 5 ''m1'' store_profiles ''u1'' (JObj [])) = Inr r"
  by (simp add: create_m_def or_else_def payload_m_def Let_def fld_def add_and_return_def
      storable_patch_def store_profiles_facts)

text \<open>The band revision creates from a body that names \<^verbatim>\<open>players\<close>, \<^verbatim>\<open>status\<close> and
  \<^verbatim>\<open>maxPlayers\<close>, the level-aware revision from a 1v1 body, the middle revision from an
  empty body: each record has the creator \<^verbatim>\<open>u1\<close> alone and the status \<^verbatim>\<open>"open"\<close>.\<close>

theorem create_persists_witness:
  "(\<exists>r. fst (create_b decimal_env 5 ''m1'' store_profiles ''u1'' body_own_fields) = Inr r)
   \<and> (\<exists>d. map_of (matches (commit 5 (snd (create_b decimal_env 5 ''m1'' store_profiles ''u1''
                                         body_own_fields)) store_profiles)) ''m1'' = Some d \<and>
          fld ''players'' d = JArr [JStr ''u1''] \<and> fld ''status'' d = JStr ''open'' \<and>
          fld ''maxPlayers'' d = JNum (Fin 4))
   \<and> (\<exists>r. fst (create_l decimal_env 5 ''m1'' store_profiles ''u1'' body_1v1) = Inr r)
   \<and> (\<exists>d. map_of (matches (commit 5 (snd (create_l decimal_env 5 ''m1'' store_profiles ''u1''
                                         body_1v1)) store_profiles)) ''m1'' = Some d \<and>
          fld ''players'' d = JArr [JStr ''u1''] \<and> fld ''status'' d = JStr ''open'' \<and>
          fld ''maxPlayers'' d = JNum (Fin 2))
   \<and> (\<exists>r. fst (create_m 5 ''m1'' store_profiles ''u1'' (JObj [])) = Inr r)
   \<and> (\<exists>d. map_of (matches (commit 5 (snd (create_m 5 ''m1'' store_profiles ''u1'' (JObj [])))
                              store_profiles)) ''m1'' = Some d \<and>
          fld ''players'' d = JArr [JStr ''u1''] \<and> fld ''status'' d = JStr ''open'' \<and>
          fld ''maxPlayers'' d = JUndef)"
proof -
  from create_b_own_fields_ok obtain rb where
    rb: "fst (create_b decimal_env 5 ''m1'' store_profiles ''u1'' body_own_fields) = Inr rb" ..
  from create_l_1v1_ok obtain rl where
    rl: "fst (create_l decimal_env 5 ''m1'' store_profiles ''u1'' body_1v1) = Inr rl" ..
  from create_m_empty_ok obtain rm where
    rm: "fst (create_m 5 ''m1'' store_profiles ''u1'' (JObj [])) = Inr rm" ..
  from create_persists [where env = decimal_env and now = 5 and nid = "''m1''"
      and s = store_profiles and uid = "''u1''" and body = body_own_fields and r = rb] rb
  have b: "\<exists>d. map_of (matches (commit 5 (snd (create_b decimal_env 5 ''m1'' store_profiles ''u1''
                                         body_own_fields)) store_profiles)) ''m1'' = Some d \<and>
          fld ''players'' d = JArr [JStr ''u1''] \<and> fld ''status'' d = JStr ''open'' \<and>
          fld ''maxPlayers'' d = JNum (Fin 4)"
    by blast
  from create_persists [where env = decimal_env and now = 5 and nid = "''m1''"
      and s = store_profiles and uid = "''u1''" and body = body_1v1 and r = rl] rl
  have l: "\<exists>d. map_of (matches (commit 5 (snd (create_l decimal_env 5 ''m1'' store_profiles ''u1''
                                         body_1v1)) store_profiles)) ''m1'' = Some d \<and>
          fld ''players'' d = JArr [JStr ''u1''] \<and> fld ''status'' d = JStr ''open'' \<and>
          fld ''maxPlayers'' d = JNum (Fin 2)"
    by (auto simp: body_facts)
  from create_persists [where env = decimal_env and now = 5 and nid = "''m1''"
      and s = store_profiles and uid = "''u1''" and body = "JObj []" and r = rm] rm
  have m: "\<exists>d. map_of (matches (commit 5 (snd (create_m 5 ''m1'' store_profiles ''u1'' (JObj [])))
                              store_profiles)) ''m1'' = Some d \<and>
          fld ''players'' d = JArr [JStr ''u1''] \<and> fld ''status'' d = JStr ''open'' \<and>
          fld ''maxPlayers'' d = JUndef"
    by (auto simp: get_prop_def fld_def or_else_def)
  from b l m create_b_own_fields_ok create_l_1v1_ok create_m_empty_ok show ?thesis
    by (intro conjI) blast+
qed

text \<open>
  The claim as stated fails in the middle revision: the body names three players, the
  status \<^verbatim>\<open>"full"\<close> and \<^verbatim>\<open>maxPlayers\<close> 2, the creation by \<^verbatim>\<open>u1\<close> succeeds, and the record
  holds the body's players and status, not the creator alone and \<^verbatim>\<open>"open"\<close>.
\<close>

theorem create_persists_counterexample:
  "fst (create_m 5 ''m1'' store_profiles ''u1'' body_own_fields) =
     Inr (201, JObj [(''id'', JStr ''m1''),
                     (''players'', JArr [JStr ''x'', JStr ''y'', JStr ''z'']),
                     (''status'', JStr ''full''), (''maxPlayers'', JNum (Fin 2)),
                     (''createdBy'', JStr ''u1''), (''createdAt'', JTime 5)])
   \<and> map_of (matches (commit 5 (snd (create_m 5 ''m1'' store_profiles ''u1'' body_own_fields))
                        store_profiles)) ''m1'' =
       Some [(''players'', JArr [JStr ''x'', JStr ''y'', JStr ''z'']),
             (''status'', JStr ''full''), (''maxPlayers'', JNum (Fin 2)),
             (''createdBy'', JStr ''u1''), (''createdAt'', JTime 5)]"
  by (simp add: create_m_def or_else_def body_own_fields_def payload_m_def Let_def fld_def
      add_and_return_def storable_patch_def store_profiles_facts commit_def with_id_def
      AList.delete_eq)

section \<open>Listing matches\<close>



















lemma num_le_Fin [simp]: "num_le (Fin a) (Fin b) = (a \<le> b)"
  by (simp add: num_le_def is_nan_def not_less)









section \<open>What every reachable record satisfies\<close>

lemma in_map_entry:
  "x \<in> set (AList.map_entry k f c) \<Longrightarrow>
   x \<in> set c \<or> (\<exists>d. map_of c k = Some d \<and> x = (k, f d))"
  by (induction c) (auto split: if_splits)

lemma map_of_in_set: "map_of c k = Some d \<Longrightarrow> (k, d) \<in> set c"
  by (rule map_of_SomeD)

lemma map_entry_twice:
  "AList.map_entry k g (AList.map_entry k f c) = AList.map_entry k (\<lambda>d. g (f d)) c"
  by (induction c) auto

lemma entry_inv:
  assumes "\<forall>x \<in> set c. P (snd x)"
    and "\<And>d. map_of c k = Some d \<Longrightarrow> P d \<Longrightarrow> P (f d)"
  shows "\<forall>x \<in> set (AList.map_entry k f c). P (snd x)"
proof
  fix x assume "x \<in> set (AList.map_entry k f c)"
  from in_map_entry [OF this] show "P (snd x)"
  proof
    assume "x \<in> set c" with assms(1) show ?thesis by blast
  next
    assume "\<exists>d. map_of c k = Some d \<and> x = (k, f d)"
    then obtain d where d: "map_of c k = Some d" and x: "x = (k, f d)" by blast
    from map_of_in_set [OF d] assms(1) have "P d" by fastforce
    from assms(2) [OF d this] x show ?thesis by simp
  qed
qed

lemma good_forD:
  "good_for c d \<Longrightarrow> \<exists>ps. fld ''maxPlayers'' d = JNum (js_of_nat c) \<and> fld ''players'' d = JArr ps \<and>
       length ps \<le> c \<and> fld ''status'' d = JStr (if length ps = c then ''full'' else ''open'')"
  by (cases "fld ''players'' d") (simp_all add: good_for_def)

lemma good_forI:
  "fld ''maxPlayers'' d = JNum (js_of_nat c) \<Longrightarrow> fld ''players'' d = JArr ps \<Longrightarrow> length ps \<le> c \<Longrightarrow>
   fld ''status'' d = JStr (if length ps = c then ''full'' else ''open'') \<Longrightarrow> good_for c d"
  by (simp add: good_for_def)


lemma good_for_status: "good_for c d \<Longrightarrow> status_derived d"
  by (drule good_forD) (auto simp: status_derived_def players_of_def array_or_empty_def js_of_nat_def)


lemma good_match_status: "good_match d \<Longrightarrow> status_derived d"
  unfolding good_match_def using good_for_status by blast

lemma js_of_nat_2_4: "js_of_nat 2 = Fin 2" "js_of_nat 4 = Fin 4"
  by (simp_all add: js_of_nat_def)

text \<open>The capacity the band revision computes for a record of the shape above.\<close>

lemma number_or_nat: "0 < c \<Longrightarrow> number_or (ToNumber env (JNum (js_of_nat c))) (Fin 4) = js_of_nat c"
  by (simp add: number_or_def ToNumber_def to_primitive_def js_of_nat_def)

lemma num_ge_js_of_nat: "num_ge (js_of_nat a) (js_of_nat b) = (b \<le> a)"
  by (simp add: js_of_nat_def num_ge_nat [unfolded js_of_nat_def])

text \<open>A join of the band revision keeps the shape.\<close>

lemma join_b_patch_good:
  assumes g: "good_for c m" and c: "0 < c" and nm: "JStr uid \<notin> set (players_of m)"
    and room: "\<not> num_ge (js_of_nat (length (players_of m)))
                        (number_or (ToNumber env (fld ''maxPlayers'' m)) (Fin 4))"
  shows "good_for c (apply_patch now
           [(''players'', ArrayUnion (JStr uid)),
            (''status'', SetTo (JStr
               (if num_ge (js_of_nat (length (players_of m) + 1))
                          (number_or (ToNumber env (fld ''maxPlayers'' m)) (Fin 4))
                then ''full'' else ''open''))),
            (''updatedAt'', ServerTimestamp)] m)"
proof -
  from good_forD [OF g] obtain ps where mx: "fld ''maxPlayers'' m = JNum (js_of_nat c)"
    and ps: "fld ''players'' m = JArr ps" and len: "length ps \<le> c" by blast
  have po: "players_of m = ps" by (simp add: players_of_def ps array_or_empty_def)
  from room have lt: "length ps < c"
    by (simp add: po mx number_or_nat [OF c] num_ge_js_of_nat)
  from nm have nin: "JStr uid \<notin> set ps" by (simp add: po)
  show ?thesis
  proof (rule good_forI [where ps = "ps @ [JStr uid]"])
    show "fld ''maxPlayers'' (apply_patch now
           [(''players'', ArrayUnion (JStr uid)),
            (''status'', SetTo (JStr
               (if num_ge (js_of_nat (length (players_of m) + 1))
                          (number_or (ToNumber env (fld ''maxPlayers'' m)) (Fin 4))
                then ''full'' else ''open''))),
            (''updatedAt'', ServerTimestamp)] m) = JNum (js_of_nat c)"
      by (simp add: fld_apply_patch mx)
    show "fld ''players'' (apply_patch now
           [(''players'', ArrayUnion (JStr uid)),
            (''status'', SetTo (JStr
               (if num_ge (js_of_nat (length (players_of m) + 1))
                          (number_or (ToNumber env (fld ''maxPlayers'' m)) (Fin 4))
                then ''full'' else ''open''))),
            (''updatedAt'', ServerTimestamp)] m) = JArr (ps @ [JStr uid])"
      using nin by (simp add: fld_apply_patch ps)
    show "length (ps @ [JStr uid]) \<le> c" using lt by simp
    show "fld ''status'' (apply_patch now
           [(''players'', ArrayUnion (JStr uid)),
            (''status'', SetTo (JStr
               (if num_ge (js_of_nat (length (players_of m) + 1))
                          (number_or (ToNumber env (fld ''maxPlayers'' m)) (Fin 4))
                then ''full'' else ''open''))),
            (''updatedAt'', ServerTimestamp)] m) =
          JStr (if length (ps @ [JStr uid]) = c then ''full'' else ''open'')"
      using lt by (auto simp: fld_apply_patch po mx number_or_nat [OF c] num_ge_js_of_nat)
  qed
qed

text \<open>A leave keeps the shape: the list gets shorter, so the status \<^verbatim>\<open>"open"\<close> is the
  derived one.\<close>

lemma leave_b_patch_good:
  assumes g: "good_for c m" and mem: "JStr uid \<in> set (players_of m)"
  shows "good_for c (apply_patch now
           [(''players'', ArrayRemove (JStr uid)), (''status'', SetTo (JStr ''open'')),
            (''updatedAt'', ServerTimestamp)] m)"
proof -
  from good_forD [OF g] obtain ps where mx: "fld ''maxPlayers'' m = JNum (js_of_nat c)"
    and ps: "fld ''players'' m = JArr ps" and len: "length ps \<le> c" by blast
  from mem have "JStr uid \<in> set ps" by (simp add: players_of_def ps array_or_empty_def)
  then have "length (filter (\<lambda>y. y \<noteq> JStr uid) ps) < length ps"
    by (intro length_filter_less [of "JStr uid"]) simp_all
  with len have lt: "length (filter (\<lambda>y. y \<noteq> JStr uid) ps) < c" by simp
  show ?thesis
    by (rule good_forI [where ps = "filter (\<lambda>y. y \<noteq> JStr uid) ps"])
       (use lt in \<open>simp_all add: fld_apply_patch mx ps\<close>)
qed

lemma edit_b_patch_good: "good_for c m \<Longrightarrow> good_for c (apply_patch now (edit_patch env old p) m)"
proof -
  assume g: "good_for c m"
  have frame: "fld k (apply_patch now (edit_patch env old p) m) = fld k m"
    if "k \<in> {''players'', ''status'', ''maxPlayers''}" for k
  proof -
    from that have "k \<notin> {''title'', ''date'', ''time'', ''location'', ''zone'', ''levelMin'',
               ''levelMax'', ''levelMinRank'', ''levelMaxRank'', ''updatedAt''}" by auto
    then show ?thesis
      by (simp add: fld_apply_patch [OF distinct_edit_patch] map_of_edit_patch_other)
  qed
  have f: "fld ''players'' (apply_patch now (edit_patch env old p) m) = fld ''players'' m"
    "fld ''status'' (apply_patch now (edit_patch env old p) m) = fld ''status'' m"
    "fld ''maxPlayers'' (apply_patch now (edit_patch env old p) m) = fld ''maxPlayers'' m"
    by (simp_all add: frame)
  from g show ?thesis
    unfolding good_for_def f .
qed

lemma add_and_return_writes:
  "snd (add_and_return now nid c p) = [] \<or> snd (add_and_return now nid c p) = [WAdd nid p]"
  by (simp add: add_and_return_def)

lemma create_b_writes:
  "snd (create_b env now nid s uid body) = [] \<or>
   (\<exists>t. snd (create_b env now nid s uid body) =
          [WAdd nid (docData_b env uid (or_else body (JObj [])) t)])"
proof (cases "or_else (get_prop ''title'' (or_else body (JObj []))) (JStr ''Partido'')")
  case (JStr t)
  then have "create_b env now nid s uid body =
      add_and_return now nid (matches s) (docData_b env uid (or_else body (JObj [])) t)"
    by (simp add: create_b_def Let_def)
  with add_and_return_writes [of now nid "matches s" "docData_b env uid (or_else body (JObj [])) t"]
  show ?thesis by auto
qed (simp_all add: create_b_def Let_def)

lemma create_l_writes:
  "snd (create_l env now nid s uid body) = [] \<or>
   (\<exists>pr. get_prop ''mode'' body \<in> {JStr ''1v1'', JStr ''2v2''} \<and>
         snd (create_l env now nid s uid body) =
           [WAdd nid (payload_l env uid pr (or_else body (JObj [])))])"
proof (cases "profile_with_level s uid")
  case None
  then show ?thesis by (simp add: create_l_def)
next
  case (Some pr)
  show ?thesis
  proof (cases "get_prop ''mode'' body \<in> {JStr ''1v1'', JStr ''2v2''} \<and>
      \<not> num_gt (lvlMin_of env (get_prop ''levelMin'' body) (fld ''level'' pr))
               (lvlMax_of env (get_prop ''levelMax'' body) (fld ''level'' pr))")
    case True
    then have "create_l env now nid s uid body =
        add_and_return now nid (matches s) (payload_l env uid pr (or_else body (JObj [])))"
      using Some by (auto simp: create_l_def Let_def get_prop_or_else)
    with add_and_return_writes [of now nid "matches s" "payload_l env uid pr (or_else body (JObj []))"]
      True show ?thesis by auto
  next
    case False
    then have "snd (create_l env now nid s uid body) = []"
      using Some by (auto simp: create_l_def Let_def get_prop_or_else)
    then show ?thesis ..
  qed
qed

lemma join_b_writes:
  "snd (join_b env s uid mid) = [] \<or>
   (\<exists>m. map_of (matches s) mid = Some m \<and> JStr uid \<notin> set (players_of m) \<and>
        \<not> num_ge (js_of_nat (length (players_of m)))
                 (number_or (ToNumber env (fld ''maxPlayers'' m)) (Fin 4)) \<and>
        snd (join_b env s uid mid) =
          [WUpdate mid
             [(''players'', ArrayUnion (JStr uid)),
              (''status'', SetTo (JStr
                 (if num_ge (js_of_nat (length (players_of m) + 1))
                            (number_or (ToNumber env (fld ''maxPlayers'' m)) (Fin 4))
                  then ''full'' else ''open''))),
              (''updatedAt'', ServerTimestamp)]])"
  by (cases "map_of (matches s) mid") (simp_all add: join_b_def Let_def players_of_def)

lemma leave_b_writes:
  "snd (leave_b s uid mid) = [] \<or>
   (\<exists>m. map_of (matches s) mid = Some m \<and> JStr uid \<in> set (players_of m) \<and>
        snd (leave_b s uid mid) =
          [WUpdate mid [(''players'', ArrayRemove (JStr uid)), (''status'', SetTo (JStr ''open'')),
                        (''updatedAt'', ServerTimestamp)]])"
  by (cases "map_of (matches s) mid") (simp_all add: leave_b_def Let_def players_of_def)

lemma edit_b_writes:
  "snd (edit_b env now s uid mid body) = [] \<or>
   (\<exists>old. map_of (matches s) mid = Some old \<and>
          snd (edit_b env now s uid mid body) =
            [WUpdate mid (edit_patch env old (or_else body (JObj [])))])"
  by (cases "map_of (matches s) mid") (simp_all add: edit_b_def Let_def)

lemma delete_b_writes:
  "snd (delete_b s uid mid) = [] \<or> snd (delete_b s uid mid) = [WDelete mid]"
  by (cases "map_of (matches s) mid") (simp_all add: delete_b_def)

lemma join_l_writes:
  "snd (join_l env now s uid mid) = [] \<or>
   (\<exists>m. map_of (matches s) mid = Some m \<and> JStr uid \<notin> set (players_of m) \<and>
        fld ''status'' m = JStr ''open'' \<and>
        \<not> num_ge (js_of_nat (length (players_of m))) (maxPlayers_or_4 m) \<and>
        snd (join_l env now s uid mid) =
          WUpdate mid [(''players'', ArrayUnion (JStr uid))] #
          (if num_ge (js_of_nat (length (players_of m) + 1)) (ToNumber env (fld ''maxPlayers'' m))
           then [WUpdate mid [(''status'', SetTo (JStr ''full''))]] else []))"
proof (cases "fst (join_l env now s uid mid)")
  case (Inl e)
  then show ?thesis using join_l_error_no_write by blast
next
  case (Inr r)
  from join_l_success [OF this] show ?thesis by blast
qed

lemma new_doc_b_good:
  "good_for 4 (map (\<lambda>kt. (fst kt, apply_transform now JUndef (snd kt))) (docData_b env uid p t))"
  by (rule good_forI [where ps = "[JStr uid]"])
     (simp_all only: fld_new_doc map_of_docData_b option.case apply_transform.simps js_of_nat_2_4,
      simp_all)

lemma new_doc_l_good:
  assumes "get_prop ''mode'' body \<in> {JStr ''1v1'', JStr ''2v2''}"
  shows "good_match (map (\<lambda>kt. (fst kt, apply_transform now JUndef (snd kt)))
                       (payload_l env uid pr (or_else body (JObj []))))"
proof (cases "get_prop ''mode'' body = JStr ''1v1''")
  case True
  have "good_for 2 (map (\<lambda>kt. (fst kt, apply_transform now JUndef (snd kt)))
                       (payload_l env uid pr (or_else body (JObj []))))"
    by (rule good_forI [where ps = "[JStr uid]"])
       (simp_all only: fld_new_doc map_of_payload_l option.case apply_transform.simps
          js_of_nat_2_4 get_prop_or_else True if_True, simp_all)
  then show ?thesis by (simp add: good_match_def)
next
  case False
  have "good_for 4 (map (\<lambda>kt. (fst kt, apply_transform now JUndef (snd kt)))
                       (payload_l env uid pr (or_else body (JObj []))))"
    by (rule good_forI [where ps = "[JStr uid]"])
       (simp_all only: fld_new_doc map_of_payload_l option.case apply_transform.simps
          js_of_nat_2_4 get_prop_or_else False if_False, simp_all)
  then show ?thesis by (simp add: good_match_def)
qed

lemma good_match_join_b:
  assumes g: "good_match m" and nm: "JStr uid \<notin> set (players_of m)"
    and room: "\<not> num_ge (js_of_nat (length (players_of m)))
                        (number_or (ToNumber env (fld ''maxPlayers'' m)) (Fin 4))"
  shows "good_match (apply_patch now
           [(''players'', ArrayUnion (JStr uid)),
            (''status'', SetTo (JStr
               (if num_ge (js_of_nat (length (players_of m) + 1))
                          (number_or (ToNumber env (fld ''maxPlayers'' m)) (Fin 4))
                then ''full'' else ''open''))),
            (''updatedAt'', ServerTimestamp)] m)"
  using g unfolding good_match_def
proof
  assume "good_for 2 m"
  from join_b_patch_good [OF this _ nm room] show "good_for 2 (apply_patch now
           [(''players'', ArrayUnion (JStr uid)),
            (''status'', SetTo (JStr
               (if num_ge (js_of_nat (length (players_of m) + 1))
                          (number_or (ToNumber env (fld ''maxPlayers'' m)) (Fin 4))
                then ''full'' else ''open''))),
            (''updatedAt'', ServerTimestamp)] m) \<or> good_for 4 (apply_patch now
           [(''players'', ArrayUnion (JStr uid)),
            (''status'', SetTo (JStr
               (if num_ge (js_of_nat (length (players_of m) + 1))
                          (number_or (ToNumber env (fld ''maxPlayers'' m)) (Fin 4))
                then ''full'' else ''open''))),
            (''updatedAt'', ServerTimestamp)] m)"
    by simp
next
  assume "good_for 4 m"
  from join_b_patch_good [OF this _ nm room] show "good_for 2 (apply_patch now
           [(''players'', ArrayUnion (JStr uid)),
            (''status'', SetTo (JStr
               (if num_ge (js_of_nat (length (players_of m) + 1))
                          (number_or (ToNumber env (fld ''maxPlayers'' m)) (Fin 4))
                then ''full'' else ''open''))),
            (''updatedAt'', ServerTimestamp)] m) \<or> good_for 4 (apply_patch now
           [(''players'', ArrayUnion (JStr uid)),
            (''status'', SetTo (JStr
               (if num_ge (js_of_nat (length (players_of m) + 1))
                          (number_or (ToNumber env (fld ''maxPlayers'' m)) (Fin 4))
                then ''full'' else ''open''))),
            (''updatedAt'', ServerTimestamp)] m)"
    by simp
qed

lemma good_match_leave_b:
  "good_match m \<Longrightarrow> JStr uid \<in> set (players_of m) \<Longrightarrow>
   good_match (apply_patch now
      [(''players'', ArrayRemove (JStr uid)), (''status'', SetTo (JStr ''open'')),
       (''updatedAt'', ServerTimestamp)] m)"
  unfolding good_match_def using leave_b_patch_good by blast

lemma good_match_edit_b: "good_match m \<Longrightarrow> good_match (apply_patch now (edit_patch env old p) m)"
  unfolding good_match_def using edit_b_patch_good by blast

text \<open>The two updates of the level-aware join, together, keep the shape.\<close>

lemma join_l_patch_good:
  assumes g: "good_for c m" and c: "0 < c" and nm: "JStr uid \<notin> set (players_of m)"
    and room: "\<not> num_ge (js_of_nat (length (players_of m))) (maxPlayers_or_4 m)"
  shows "good_for c
           ((if num_ge (js_of_nat (length (players_of m) + 1)) (ToNumber env (fld ''maxPlayers'' m))
             then apply_patch now [(''status'', SetTo (JStr ''full''))] else (\<lambda>d. d))
              (apply_patch now [(''players'', ArrayUnion (JStr uid))] m))"
proof -
  from good_forD [OF g] obtain ps where mx: "fld ''maxPlayers'' m = JNum (js_of_nat c)"
    and ps: "fld ''players'' m = JArr ps" and len: "length ps \<le> c"
    and st: "fld ''status'' m = JStr (if length ps = c then ''full'' else ''open'')" by blast
  have po: "players_of m = ps" by (simp add: players_of_def ps array_or_empty_def)
  have cap: "maxPlayers_or_4 m = js_of_nat c" by (simp add: maxPlayers_or_4_def mx)
  have tn: "ToNumber env (fld ''maxPlayers'' m) = js_of_nat c"
    by (simp add: mx ToNumber_def to_primitive_def)
  from room have lt: "length ps < c" by (simp add: po cap num_ge_js_of_nat)
  from nm have nin: "JStr uid \<notin> set ps" by (simp add: po)
  let ?d1 = "apply_patch now [(''players'', ArrayUnion (JStr uid))] m"
  have d1: "fld ''maxPlayers'' ?d1 = JNum (js_of_nat c)" "fld ''players'' ?d1 = JArr (ps @ [JStr uid])"
    "fld ''status'' ?d1 = JStr ''open''"
    using nin lt st by (simp_all add: fld_apply_patch mx ps)
  show ?thesis
  proof (cases "c \<le> length ps + 1")
    case True
    with lt have eq: "length (ps @ [JStr uid]) = c" by simp
    have "good_for c (apply_patch now [(''status'', SetTo (JStr ''full''))] ?d1)"
      by (rule good_forI [where ps = "ps @ [JStr uid]"])
         (use eq in \<open>simp_all add: fld_apply_patch d1\<close>)
    with True show ?thesis by (simp add: po tn num_ge_js_of_nat)
  next
    case False
    then have ne: "length (ps @ [JStr uid]) \<noteq> c" "length (ps @ [JStr uid]) \<le> c" by simp_all
    have "good_for c ?d1"
      by (rule good_forI [where ps = "ps @ [JStr uid]"]) (use ne in \<open>simp_all add: d1\<close>)
    with False show ?thesis by (simp add: po tn num_ge_js_of_nat)
  qed
qed

lemma good_match_join_l:
  assumes g: "good_match m" and nm: "JStr uid \<notin> set (players_of m)"
    and room: "\<not> num_ge (js_of_nat (length (players_of m))) (maxPlayers_or_4 m)"
  shows "good_match
           ((if num_ge (js_of_nat (length (players_of m) + 1)) (ToNumber env (fld ''maxPlayers'' m))
             then apply_patch now [(''status'', SetTo (JStr ''full''))] else (\<lambda>d. d))
              (apply_patch now [(''players'', ArrayUnion (JStr uid))] m))"
proof -
  from g have "good_for 2 m \<or> good_for 4 m" by (simp add: good_match_def)
  then show ?thesis
  proof
    assume "good_for 2 m"
    from join_l_patch_good [OF this _ nm room, of env now] show ?thesis
      by (simp add: good_match_def)
  next
    assume "good_for 4 m"
    from join_l_patch_good [OF this _ nm room, of env now] show ?thesis
      by (simp add: good_match_def)
  qed
qed

lemma matches_commit_add:
  "matches (commit now [WAdd nid p] s) =
     matches s @ [(nid, map (\<lambda>kt. (fst kt, apply_transform now JUndef (snd kt))) p)]"
  by (simp add: commit_def)

lemma matches_commit_update:
  "matches (commit now [WUpdate k p] s) = AList.map_entry k (apply_patch now p) (matches s)"
  by (simp add: commit_def)

lemma matches_commit_two_updates:
  "matches (commit now [WUpdate k p, WUpdate k q] s) =
     AList.map_entry k (\<lambda>d. apply_patch now q (apply_patch now p d)) (matches s)"
  by (simp add: commit_def map_entry_twice)

lemma matches_commit_delete: "set (matches (commit now [WDelete k] s)) \<subseteq> set (matches s)"
  by (auto simp: commit_def AList.delete_eq)

text \<open>Every request of the band revision keeps the shape of every record.\<close>

lemma step_b_good:
  assumes inv: "\<forall>x \<in> set (matches s). good_match (snd x)"
  shows "\<forall>x \<in> set (matches (step_b env s req)). good_match (snd x)"
proof -
  obtain now r where req: "req = (now, r)" by (cases req)
  show ?thesis
  proof (cases r)
    case (CreateB nid uid body)
    from create_b_writes [of env now nid s uid body] show ?thesis
    proof
      assume "snd (create_b env now nid s uid body) = []"
      with inv show ?thesis by (simp add: req CreateB commit_Nil)
    next
      assume "\<exists>t. snd (create_b env now nid s uid body) =
          [WAdd nid (docData_b env uid (or_else body (JObj [])) t)]"
      then obtain t where w: "snd (create_b env now nid s uid body) =
          [WAdd nid (docData_b env uid (or_else body (JObj [])) t)]" ..
      have "good_match (map (\<lambda>kt. (fst kt, apply_transform now JUndef (snd kt)))
          (docData_b env uid (or_else body (JObj [])) t))"
        using new_doc_b_good by (simp add: good_match_def)
      with inv show ?thesis
        by (auto simp: req CreateB w matches_commit_add)
    qed
  next
    case (JoinB uid mid)
    from join_b_writes [of env s uid mid] show ?thesis
    proof
      assume "snd (join_b env s uid mid) = []"
      with inv show ?thesis by (simp add: req JoinB commit_Nil)
    next
      assume "\<exists>m. map_of (matches s) mid = Some m \<and> JStr uid \<notin> set (players_of m) \<and>
        \<not> num_ge (js_of_nat (length (players_of m)))
                 (number_or (ToNumber env (fld ''maxPlayers'' m)) (Fin 4)) \<and>
        snd (join_b env s uid mid) =
          [WUpdate mid
             [(''players'', ArrayUnion (JStr uid)),
              (''status'', SetTo (JStr
                 (if num_ge (js_of_nat (length (players_of m) + 1))
                            (number_or (ToNumber env (fld ''maxPlayers'' m)) (Fin 4))
                  then ''full'' else ''open''))),
              (''updatedAt'', ServerTimestamp)]]"
      then obtain m where m: "map_of (matches s) mid = Some m"
        and nm: "JStr uid \<notin> set (players_of m)"
        and room: "\<not> num_ge (js_of_nat (length (players_of m)))
                 (number_or (ToNumber env (fld ''maxPlayers'' m)) (Fin 4))"
        and w: "snd (join_b env s uid mid) =
          [WUpdate mid
             [(''players'', ArrayUnion (JStr uid)),
              (''status'', SetTo (JStr
                 (if num_ge (js_of_nat (length (players_of m) + 1))
                            (number_or (ToNumber env (fld ''maxPlayers'' m)) (Fin 4))
                  then ''full'' else ''open''))),
              (''updatedAt'', ServerTimestamp)]]"
        by blast
      show ?thesis
        unfolding req JoinB step_b.simps w matches_commit_update
      proof (rule entry_inv [OF inv])
        fix d assume "map_of (matches s) mid = Some d" and g: "good_match d"
        with m have "d = m" by simp
        with g nm room show "good_match (apply_patch now
             [(''players'', ArrayUnion (JStr uid)),
              (''status'', SetTo (JStr
                 (if num_ge (js_of_nat (length (players_of m) + 1))
                            (number_or (ToNumber env (fld ''maxPlayers'' m)) (Fin 4))
                  then ''full'' else ''open''))),
              (''updatedAt'', ServerTimestamp)] d)"
          using good_match_join_b by blast
      qed
    qed
  next
    case (LeaveB uid mid)
    from leave_b_writes [of s uid mid] show ?thesis
    proof
      assume "snd (leave_b s uid mid) = []"
      with inv show ?thesis by (simp add: req LeaveB commit_Nil)
    next
      assume "\<exists>m. map_of (matches s) mid = Some m \<and> JStr uid \<in> set (players_of m) \<and>
        snd (leave_b s uid mid) =
          [WUpdate mid [(''players'', ArrayRemove (JStr uid)), (''status'', SetTo (JStr ''open'')),
                        (''updatedAt'', ServerTimestamp)]]"
      then obtain m where m: "map_of (matches s) mid = Some m"
        and mem: "JStr uid \<in> set (players_of m)"
        and w: "snd (leave_b s uid mid) =
          [WUpdate mid [(''players'', ArrayRemove (JStr uid)), (''status'', SetTo (JStr ''open'')),
                        (''updatedAt'', ServerTimestamp)]]"
        by blast
      show ?thesis
        unfolding req LeaveB step_b.simps w matches_commit_update
      proof (rule entry_inv [OF inv])
        fix d assume "map_of (matches s) mid = Some d" and g: "good_match d"
        with m have "d = m" by simp
        with g mem show "good_match (apply_patch now
            [(''players'', ArrayRemove (JStr uid)), (''status'', SetTo (JStr ''open'')),
             (''updatedAt'', ServerTimestamp)] d)"
          using good_match_leave_b by blast
      qed
    qed
  next
    case (EditB uid mid body)
    from edit_b_writes [of env now s uid mid body] show ?thesis
    proof
      assume "snd (edit_b env now s uid mid body) = []"
      with inv show ?thesis by (simp add: req EditB commit_Nil)
    next
      assume "\<exists>old. map_of (matches s) mid = Some old \<and>
          snd (edit_b env now s uid mid body) =
            [WUpdate mid (edit_patch env old (or_else body (JObj [])))]"
      then obtain old where w: "snd (edit_b env now s uid mid body) =
            [WUpdate mid (edit_patch env old (or_else body (JObj [])))]"
        by blast
      show ?thesis
        unfolding req EditB step_b.simps w matches_commit_update
        by (rule entry_inv [OF inv]) (rule good_match_edit_b)
    qed
  next
    case (DeleteB uid mid)
    from delete_b_writes [of s uid mid] show ?thesis
    proof
      assume "snd (delete_b s uid mid) = []"
      with inv show ?thesis by (simp add: req DeleteB commit_Nil)
    next
      assume w: "snd (delete_b s uid mid) = [WDelete mid]"
      from inv matches_commit_delete [of now mid s] show ?thesis
        unfolding req DeleteB step_b.simps w by blast
    qed
  qed
qed

text \<open>Every request of the level-aware revision keeps the shape of every record.\<close>

lemma step_l_good:
  assumes inv: "\<forall>x \<in> set (matches s). good_match (snd x)"
  shows "\<forall>x \<in> set (matches (step_l env s req)). good_match (snd x)"
proof -
  obtain now r where req: "req = (now, r)" by (cases req)
  show ?thesis
  proof (cases r)
    case (CreateL nid uid body)
    from create_l_writes [of env now nid s uid body] show ?thesis
    proof
      assume "snd (create_l env now nid s uid body) = []"
      with inv show ?thesis by (simp add: req CreateL commit_Nil)
    next
      assume "\<exists>pr. get_prop ''mode'' body \<in> {JStr ''1v1'', JStr ''2v2''} \<and>
         snd (create_l env now nid s uid body) =
           [WAdd nid (payload_l env uid pr (or_else body (JObj [])))]"
      then obtain pr where mode: "get_prop ''mode'' body \<in> {JStr ''1v1'', JStr ''2v2''}"
        and w: "snd (create_l env now nid s uid body) =
           [WAdd nid (payload_l env uid pr (or_else body (JObj [])))]"
        by blast
      from new_doc_l_good [OF mode] inv show ?thesis
        by (auto simp: req CreateL w matches_commit_add)
    qed
  next
    case (JoinL uid mid)
    from join_l_writes [of env now s uid mid] show ?thesis
    proof
      assume "snd (join_l env now s uid mid) = []"
      with inv show ?thesis by (simp add: req JoinL commit_Nil)
    next
      assume "\<exists>m. map_of (matches s) mid = Some m \<and> JStr uid \<notin> set (players_of m) \<and>
        fld ''status'' m = JStr ''open'' \<and>
        \<not> num_ge (js_of_nat (length (players_of m))) (maxPlayers_or_4 m) \<and>
        snd (join_l env now s uid mid) =
          WUpdate mid [(''players'', ArrayUnion (JStr uid))] #
          (if num_ge (js_of_nat (length (players_of m) + 1)) (ToNumber env (fld ''maxPlayers'' m))
           then [WUpdate mid [(''status'', SetTo (JStr ''full''))]] else [])"
      then obtain m where m: "map_of (matches s) mid = Some m"
        and nm: "JStr uid \<notin> set (players_of m)"
        and room: "\<not> num_ge (js_of_nat (length (players_of m))) (maxPlayers_or_4 m)"
        and w: "snd (join_l env now s uid mid) =
          WUpdate mid [(''players'', ArrayUnion (JStr uid))] #
          (if num_ge (js_of_nat (length (players_of m) + 1)) (ToNumber env (fld ''maxPlayers'' m))
           then [WUpdate mid [(''status'', SetTo (JStr ''full''))]] else [])"
        by blast
      let ?full = "num_ge (js_of_nat (length (players_of m) + 1)) (ToNumber env (fld ''maxPlayers'' m))"
      let ?f = "\<lambda>d. (if ?full then apply_patch now [(''status'', SetTo (JStr ''full''))] else (\<lambda>d. d))
                  (apply_patch now [(''players'', ArrayUnion (JStr uid))] d)"
      have eq: "matches (step_l env s req) = AList.map_entry mid ?f (matches s)"
        by (cases ?full)
           (simp_all add: req JoinL w matches_commit_two_updates matches_commit_update)
      show ?thesis
        unfolding eq
      proof (rule entry_inv [OF inv])
        fix d assume "map_of (matches s) mid = Some d" and g: "good_match d"
        with m have "d = m" by simp
        with g nm room show "good_match (?f d)"
          using good_match_join_l by blast
      qed
    qed
  next
    case (ProfileWrite uid d)
    with inv show ?thesis by (simp add: req)
  qed
qed

lemma run_b_good:
  "\<forall>x \<in> set (matches s). good_match (snd x) \<Longrightarrow>
   \<forall>x \<in> set (matches (run_b env rs s)). good_match (snd x)"
  unfolding run_b_def
proof (induction rs arbitrary: s)
  case Nil
  then show ?case by simp
next
  case (Cons r rs)
  from Cons.IH [OF step_b_good [OF Cons.prems]] show ?case by simp
qed

lemma run_l_good:
  "\<forall>x \<in> set (matches s). good_match (snd x) \<Longrightarrow>
   \<forall>x \<in> set (matches (run_l env rs s)). good_match (snd x)"
  unfolding run_l_def
proof (induction rs arbitrary: s)
  case Nil
  then show ?case by simp
next
  case (Cons r rs)
  from Cons.IH [OF step_l_good [OF Cons.prems]] show ?case by simp
qed

lemma no_matches_good: "\<forall>x \<in> set (matches (no_matches pr)). good_match (snd x)"
  by (simp add: no_matches_def)

lemma join_m_writes:
  "snd (join_m s uid mid) = [] \<or>
   (\<exists>m. map_of (matches s) mid = Some m \<and> JStr uid \<notin> set (players_of m) \<and>
        \<not> num_ge (js_of_nat (length (players_of m))) (maxPlayers_or_4 m) \<and>
        snd (join_m s uid mid) = [WUpdate mid [(''players'', ArrayUnion (JStr uid))]])"
  by (cases "map_of (matches s) mid") (simp_all add: join_m_def Let_def players_of_def)




lemma join_m_keeps_status:
  assumes m: "map_of (matches s) i = Some m"
  shows "\<exists>m'. map_of (matches (step_m s (now, JoinM uid mid))) i = Some m' \<and>
              fld ''status'' m' = fld ''status'' m"
  using join_m_writes [of s uid mid]
proof
  assume "snd (join_m s uid mid) = []"
  with m show ?thesis by (simp add: commit_Nil)
next
  assume "\<exists>m. map_of (matches s) mid = Some m \<and> JStr uid \<notin> set (players_of m) \<and>
        \<not> num_ge (js_of_nat (length (players_of m))) (maxPlayers_or_4 m) \<and>
        snd (join_m s uid mid) = [WUpdate mid [(''players'', ArrayUnion (JStr uid))]]"
  then have w: "snd (join_m s uid mid) = [WUpdate mid [(''players'', ArrayUnion (JStr uid))]]"
    by blast
  show ?thesis
    using m by (cases "i = mid")
      (simp_all add: w matches_commit_update map_of_map_entry fld_apply_patch)
qed


lemma run_b_sample:
  "run_b decimal_env [(5, CreateB ''m1'' ''u1'' (JObj [])), (6, JoinB ''u2'' ''m1'')] (no_matches [])
     = store_b1"
  by (simp add: run_b_def no_matches_def create_b_def Let_def or_else_def get_prop_def fld_def
      add_and_return_def storable_patch_def docData_b_def rankOf_def property_key_def
      BAND_RANK_def js_of_nat_def commit_def join_b_def array_or_empty_def ToNumber_def
      to_primitive_def number_or_def num_ge_def num_le_def is_nan_def apply_patch_def
      store_b1_def match_b1_def trim_def js_space_def)

lemma run_l_sample:
  "matches (run_l decimal_env [(5, CreateL ''m1'' ''u1'' body_1v1), (8, JoinL ''u2'' ''m1'')]
              (no_matches [(''u1'', profile_u1), (''u2'', profile_u2)]))
     = [(''m1'', match_l1_full)]"
  by (simp add: run_l_def no_matches_def create_l_def profile_with_level_def profile_u1_def
      profile_u2_def body_1v1_def Let_def or_else_def get_prop_def fld_def lvlMin_of_def
      lvlMax_of_def finite_or_def minus_half_def plus_half_def isFinite_def math_max_def
      math_min_def num_sub_def num_gt_def add_and_return_def storable_patch_def payload_l_def
      js_of_nat_def commit_def join_l_def array_or_empty_def maxPlayers_or_4_def lvlOk_def
      ToNumber_def to_primitive_def num_ge_def num_le_def is_nan_def apply_patch_def
      match_l1_full_def)

lemma run_m_sample:
  "matches (run_m [(5, CreateM ''m1'' ''u1'' body_two_places), (6, JoinM ''u2'' ''m1'')]
              (no_matches []))
     = [(''m1'', match_m_two)]"
  by (simp add: run_m_def no_matches_def create_m_def body_two_places_def payload_m_def Let_def
      or_else_def fld_def add_and_return_def storable_patch_def commit_def join_m_def
      array_or_empty_def maxPlayers_or_4_def js_of_nat_def num_ge_def num_le_def is_nan_def
      apply_patch_def match_m_two_def)

lemma match_m_two_facts:
  "maxPlayers_or_4 match_m_two = js_of_nat 2"
  "players_of match_m_two = [JStr ''u1'', JStr ''u2'']"
  "fld ''status'' match_m_two = JStr ''open''"
  "fld ''maxPlayers'' match_m_two = JNum (Fin 2)"
  by (simp_all add: match_m_two_def maxPlayers_or_4_def players_of_def array_or_empty_def
      fld_def js_of_nat_def)



text \<open>
  C2, as the code has it. In the band and in the level-aware revision every record
  reached from an empty collection by requests served one at a time (creations, joins,
  and in the band revision leaves, edits and deletions) has the status \<^verbatim>\<open>"full"\<close> when
  the number of its players is its \<^verbatim>\<open>maxPlayers\<close> and the status \<^verbatim>\<open>"open"\<close> otherwise.
  The middle revision never derives the status: its join leaves the status of every record
  as it was.
\<close>

theorem status_follows_count:
  "(\<forall>x \<in> set (matches (run_b env rb (no_matches pr))). status_derived (snd x))
   \<and> (\<forall>x \<in> set (matches (run_l env rl (no_matches pr))). status_derived (snd x))
   \<and> (map_of (matches s) i = Some m \<longrightarrow>
        (\<exists>m'. map_of (matches (step_m s (now, JoinM uid mid))) i = Some m' \<and>
              fld ''status'' m' = fld ''status'' m))"
proof (intro conjI impI)
  show "\<forall>x \<in> set (matches (run_b env rb (no_matches pr))). status_derived (snd x)"
    using run_b_good [OF no_matches_good] good_match_status by blast
  show "\<forall>x \<in> set (matches (run_l env rl (no_matches pr))). status_derived (snd x)"
    using run_l_good [OF no_matches_good] good_match_status by blast
next
  assume "map_of (matches s) i = Some m"
  then show "\<exists>m'. map_of (matches (step_m s (now, JoinM uid mid))) i = Some m' \<and>
              fld ''status'' m' = fld ''status'' m"
    by (rule join_m_keeps_status)
qed

lemma run_b_three:
  "matches (run_b decimal_env
      [(5, CreateB ''m1'' ''u1'' (JObj [])), (6, JoinB ''u2'' ''m1''), (7, LeaveB ''u2'' ''m1'')]
      (no_matches []))
   = [(''m1'', AList.update ''updatedAt'' (JTime 7)
                (AList.update ''players'' (JArr [JStr ''u1'']) match_b1))]"
proof -
  have "run_b decimal_env
      [(5, CreateB ''m1'' ''u1'' (JObj [])), (6, JoinB ''u2'' ''m1''), (7, LeaveB ''u2'' ''m1'')]
      (no_matches []) =
    step_b decimal_env (run_b decimal_env
      [(5, CreateB ''m1'' ''u1'' (JObj [])), (6, JoinB ''u2'' ''m1'')] (no_matches []))
      (7, LeaveB ''u2'' ''m1'')"
    by (simp add: run_b_def)
  then show ?thesis
    by (simp add: run_b_sample store_b1_def match_b1_def leave_b_def array_or_empty_def fld_def
        commit_def apply_patch_def)
qed

text \<open>The band revision after a creation, a join and a leave (one player, \<^verbatim>\<open>"open"\<close>); the
  level-aware revision after the second player joined a 1v1 match (two players,
  \<^verbatim>\<open>"full"\<close>); and the join of the middle revision, which leaves the status \<^verbatim>\<open>"open"\<close>.\<close>

theorem status_follows_count_witness:
  "status_derived (AList.update ''updatedAt'' (JTime 7)
                    (AList.update ''players'' (JArr [JStr ''u1'']) match_b1))
   \<and> fld ''status'' (AList.update ''updatedAt'' (JTime 7)
                    (AList.update ''players'' (JArr [JStr ''u1'']) match_b1)) = JStr ''open''
   \<and> status_derived match_l1_full
   \<and> fld ''status'' match_l1_full = JStr ''full''
   \<and> players_of match_l1_full = [JStr ''u1'', JStr ''u2'']
   \<and> fld ''maxPlayers'' match_l1_full = JNum (Fin 2)
   \<and> map_of (matches store_nocap) ''m1'' = Some match_nocap
   \<and> (\<exists>m'. map_of (matches (step_m store_nocap (7, JoinM ''u2'' ''m1''))) ''m1'' = Some m' \<and>
           fld ''status'' m' = JStr ''open'')"
proof -
  note t = status_follows_count [where env = decimal_env
      and rb = "[(5, CreateB ''m1'' ''u1'' (JObj [])), (6, JoinB ''u2'' ''m1''),
                 (7, LeaveB ''u2'' ''m1'')]"
      and rl = "[(5, CreateL ''m1'' ''u1'' body_1v1), (8, JoinL ''u2'' ''m1'')]"
      and s = store_nocap and i = "''m1''" and mid = "''m1''"
      and m = match_nocap and now = 7 and uid = "''u2''"]
  from t [where pr = "[]"]
  have b: "status_derived (AList.update ''updatedAt'' (JTime 7)
                    (AList.update ''players'' (JArr [JStr ''u1'']) match_b1))"
    by (simp add: run_b_three)
  from t [where pr = "[(''u1'', profile_u1), (''u2'', profile_u2)]"]
  have l: "status_derived match_l1_full"
    by (simp add: run_l_sample)
  from t [where pr = "[]"] match_nocap_facts
  have m: "\<exists>m'. map_of (matches (step_m store_nocap (7, JoinM ''u2'' ''m1''))) ''m1'' = Some m' \<and>
           fld ''status'' m' = JStr ''open''"
    by simp
  have f: "fld ''status'' match_l1_full = JStr ''full''"
    "players_of match_l1_full = [JStr ''u1'', JStr ''u2'']"
    "fld ''maxPlayers'' match_l1_full = JNum (Fin 2)"
    "fld ''status'' (AList.update ''updatedAt'' (JTime 7)
                    (AList.update ''players'' (JArr [JStr ''u1'']) match_b1)) = JStr ''open''"
    by (simp_all add: match_l1_full_def match_b1_def fld_def players_of_def array_or_empty_def)
  from b l m f match_nocap_facts(1) show ?thesis by simp
qed

text \<open>
  The claim as stated fails in the middle revision: \<^verbatim>\<open>u1\<close> creates a match with
  \<^verbatim>\<open>maxPlayers\<close> 2, \<^verbatim>\<open>u2\<close> joins, and the record has two players, the capacity 2 and the
  status \<^verbatim>\<open>"open"\<close>.
\<close>

theorem status_follows_count_counterexample:
  "matches (run_m [(5, CreateM ''m1'' ''u1'' body_two_places), (6, JoinM ''u2'' ''m1'')]
              (no_matches []))
     = [(''m1'', match_m_two)]
   \<and> players_of match_m_two = [JStr ''u1'', JStr ''u2'']
   \<and> fld ''maxPlayers'' match_m_two = JNum (Fin 2)
   \<and> fld ''status'' match_m_two = JStr ''open''
   \<and> \<not> status_derived match_m_two"
  by (simp add: run_m_sample match_m_two_facts status_derived_def js_of_nat_def)

end
